theory Spec2Isabelle
  imports Main "HOL-Library.Word" "HOL-Library.Char_ord" "HOL-Library.List_Lexorder"
begin

section \<open>Errors\<close>

text \<open>
  The Go code reports failures as \<open>error\<close> values. A library call fails with an error of
  the library's own (\<open>LibError\<close>, carrying its message); the package wraps a cause with
  \<open>fmt.Errorf("msg: %w", err)\<close> (\<open>Errorf msg (Some err)\<close>) or creates an error without a
  cause (\<open>Errorf msg None\<close>); the HTTP client wraps a failure of a request in a
  \<open>url.Error\<close> holding the operation, the URL and the cause.
\<close>

datatype error =
    LibError string
  | Errorf string "error option"
  | UrlError string string error

section \<open>Decimal digits: strconv.Itoa and the verb %0Nd of fmt\<close>

definition isDigit :: "char \<Rightarrow> bool" where
  "isDigit c = (48 \<le> (of_char c :: nat) \<and> (of_char c :: nat) \<le> 57)"

definition digit_char :: "nat \<Rightarrow> char" where
  "digit_char n = char_of (48 + n)"

definition digit_val :: "char \<Rightarrow> nat" where
  "digit_val c = of_char c - 48"

text \<open>The decimal digits of a natural number, most significant first, no leading zero.\<close>

fun itoa_nat :: "nat \<Rightarrow> string" where
  "itoa_nat n = (if n < 10 then [digit_char n] else itoa_nat (n div 10) @ [digit_char (n mod 10)])"

declare itoa_nat.simps [simp del]

definition strconv_Itoa :: "int \<Rightarrow> string" where
  "strconv_Itoa n = (if n < 0 then ''-'' else []) @ itoa_nat (nat \<bar>n\<bar>)"

text \<open>
  \<open>fmt_zero_d wid n\<close> is what \<open>fmt.Sprintf\<close> writes for the verb \<open>%0<wid>d\<close>: the digits of
  \<open>\<bar>n\<bar>\<close>, padded on the left with zeros up to the width, where a minus sign takes one
  position of the width (fmt lowers the precision by one "to leave room for the sign").
\<close>

definition fmt_zero_d :: "nat \<Rightarrow> int \<Rightarrow> string" where
  "fmt_zero_d wid n =
     (let digits = itoa_nat (nat \<bar>n\<bar>);
          prec = (if n < 0 then wid - 1 else wid)
      in (if n < 0 then ''-'' else []) @ replicate (prec - length digits) (CHR ''0'') @ digits)"

section \<open>types.go: Date\<close>

text \<open>\<open>time.Month\<close> is an integer type; the verb \<open>%02d\<close> prints its number.\<close>

record Date =
  Year :: int
  Month :: int
  Day :: int

text \<open>\<open>func (d Date) String() string\<close>: \<open>fmt.Sprintf("%04d-%02d-%02d", d.Year, d.Month, d.Day)\<close>.\<close>

definition Date_String :: "Date \<Rightarrow> string" where
  "Date_String d =
     fmt_zero_d 4 (Year d) @ ''-'' @ fmt_zero_d 2 (Month d) @ ''-'' @ fmt_zero_d 2 (Day d)"

subsection \<open>time.Parse with the layout "2006-01-02"\<close>

text \<open>
  The layout splits into the chunks \<open>2006\<close> (a year of exactly four digits), the literal
  \<open>-\<close>, \<open>01\<close> (a month of exactly two digits), the literal \<open>-\<close> and \<open>02\<close> (a day of exactly two
  digits). The functions below are the helpers of package \<open>time\<close> that these chunks use;
  \<open>leadingInt\<close> is without its overflow check, since \<open>atoi\<close> is given four characters.
\<close>

fun leadingInt :: "nat \<Rightarrow> string \<Rightarrow> nat \<times> string" where
  "leadingInt x [] = (x, [])"
| "leadingInt x (c # cs) =
     (if isDigit c then leadingInt (x * 10 + digit_val c) cs else (x, c # cs))"

definition atoi :: "string \<Rightarrow> error + int" where
  "atoi s =
     (let neg = (s \<noteq> [] \<and> hd s = CHR ''-'');
          s1 = (if s \<noteq> [] \<and> (hd s = CHR ''-'' \<or> hd s = CHR ''+'') then tl s else s)
      in case leadingInt 0 s1 of
           (q, rem) \<Rightarrow> if rem \<noteq> [] then Inl (LibError ''time: invalid number'')
                       else Inr (if neg then - int q else int q))"

text \<open>\<open>getnum s fixed\<close> reads one or two digits; \<open>fixed\<close> demands two.\<close>

fun getnum :: "string \<Rightarrow> bool \<Rightarrow> error + (int \<times> string)" where
  "getnum [] fixed = Inl (LibError ''bad value for field'')"
| "getnum [c] fixed =
     (if \<not> isDigit c then Inl (LibError ''bad value for field'')
      else if fixed then Inl (LibError ''bad value for field'')
      else Inr (int (digit_val c), []))"
| "getnum (c # c' # cs) fixed =
     (if \<not> isDigit c then Inl (LibError ''bad value for field'')
      else if \<not> isDigit c' then
        (if fixed then Inl (LibError ''bad value for field'')
         else Inr (int (digit_val c), c' # cs))
      else Inr (int (digit_val c) * 10 + int (digit_val c'), cs))"

text \<open>\<open>skip\<close> for a prefix of one character that is not a space.\<close>

fun skip :: "string \<Rightarrow> char \<Rightarrow> error + string" where
  "skip [] p = Inl (LibError ''bad value for field'')"
| "skip (c # cs) p = (if c \<noteq> p then Inl (LibError ''bad value for field'') else Inr cs)"

definition isLeap :: "int \<Rightarrow> bool" where
  "isLeap year = (year mod 4 = 0 \<and> (year mod 100 \<noteq> 0 \<or> year mod 400 = 0))"

definition daysIn :: "int \<Rightarrow> int \<Rightarrow> int" where
  "daysIn m year =
     (if m = 2 then (if isLeap year then 29 else 28)
      else if m = 4 \<or> m = 6 \<or> m = 9 \<or> m = 11 then 30 else 31)"

definition parse_error :: "string \<Rightarrow> error" where
  "parse_error msg = LibError (''parsing time'' @ msg)"

text \<open>
  \<open>time.Parse("2006-01-02", v0)\<close> followed by \<open>tmp.Date()\<close>. The parser checks the month
  when it reads it and the day of the month after the last chunk, so the time it builds is
  the midnight (UTC) of an existing day, and \<open>Date()\<close> gives back the year, month and day
  that were read.
\<close>

definition time_Parse_date :: "string \<Rightarrow> error + (int \<times> int \<times> int)" where
  "time_Parse_date v0 =
     (if length v0 < 4 \<or> \<not> isDigit (hd v0) then Inl (parse_error [])
      else case atoi (take 4 v0) of
        Inl e \<Rightarrow> Inl (parse_error [])
      | Inr year \<Rightarrow>
     (case skip (drop 4 v0) (CHR ''-'') of
        Inl e \<Rightarrow> Inl (parse_error [])
      | Inr v1 \<Rightarrow>
     (case getnum v1 True of
        Inl e \<Rightarrow> Inl (parse_error [])
      | Inr (month, v2) \<Rightarrow>
     if month \<le> 0 \<or> 12 < month then Inl (parse_error '': month out of range'')
     else
     (case skip v2 (CHR ''-'') of
        Inl e \<Rightarrow> Inl (parse_error [])
      | Inr v3 \<Rightarrow>
     (case getnum v3 True of
        Inl e \<Rightarrow> Inl (parse_error [])
      | Inr (day, v4) \<Rightarrow>
     if v4 \<noteq> [] then Inl (parse_error '': extra text'')
     else if day < 1 \<or> day > daysIn month year then Inl (parse_error '': day out of range'')
     else Inr (year, month, day))))))"

text \<open>
  \<open>func (d *Date) UnmarshalJSON(data []byte) error\<close>. The result is the error (if any)
  and the value of the target afterwards; \<open>json_Unmarshal_string\<close> is
  \<open>json.Unmarshal(data, &s)\<close> for a string \<open>s\<close>. \<open>parseDate\<close> is the part after the JSON
  string has been read.
\<close>

definition parseDate :: "string \<Rightarrow> error + Date" where
  "parseDate s =
     (case time_Parse_date s of
        Inl e \<Rightarrow> Inl (Errorf ''failed to parse date'' (Some e))
      | Inr (y, m, day) \<Rightarrow> Inr \<lparr>Year = y, Month = m, Day = day\<rparr>)"

definition Date_UnmarshalJSON ::
  "(string \<Rightarrow> error + string) \<Rightarrow> Date \<Rightarrow> string \<Rightarrow> error option \<times> Date" where
  "Date_UnmarshalJSON json_Unmarshal_string d data =
     (if data = ''null'' then (None, d)
      else case json_Unmarshal_string data of
        Inl e \<Rightarrow> (Some (Errorf ''failed to unmarshal JSON field as a string'' (Some e)), d)
      | Inr s \<Rightarrow>
          (case parseDate s of
             Inl e \<Rightarrow> (Some e, d)
           | Inr d' \<Rightarrow> (None, d')))"

section \<open>aplos.go: data\<close>

text \<open>
  A \<open>time.Time\<close> is modelled by its distance in nanoseconds from the zero time (January 1,
  year 1, 00:00:00 UTC), so \<open>IsZero\<close> is \<open>t = 0\<close>, \<open>Before\<close> is \<open><\<close> and \<open>Add\<close> is \<open>+\<close>. A
  \<open>float64\<close> is its 64 bits; the package does no arithmetic on it.
\<close>

type_synonym time = int
type_synonym float64 = "64 word"

definition second :: int where
  "second = 1000000000"

record AccountGroup =
  AccountGroup_ID :: int
  AccountGroup_Name :: string
  AccountGroup_Seq :: int

record Account =
  AccountNumber :: int
  Account_Name :: string
  Category :: string
  Account_AccountGroup :: "AccountGroup option"
  IsEnabled :: bool
  Account_Type :: string
  Activity :: string

record Fund =
  Fund_ID :: int
  Fund_Name :: string

record TransactionLine =
  TransactionLine_ID :: int
  TransactionLine_Amount :: float64
  TransactionLine_Account :: Account
  TransactionLine_Fund :: Fund

record Transaction =
  Transaction_ID :: int
  Memo :: string
  Transaction_Date :: Date
  IDNumber :: int
  Created :: time
  Amount :: float64
  InClosedPeriod :: bool
  Lines :: "TransactionLine list"

text \<open>
  The four response structs (\<open>getTransactionResponse\<close>, \<open>listAccountsResponse\<close>,
  \<open>listTransactionsResponse\<close>, \<open>authResponse\<close>) have the same three fields and differ in
  the type of \<open>Data\<close>.
\<close>

record 'a response =
  Version :: string
  Status :: int
  Data :: 'a

record getTransactionResponseData =
  Data_Transaction :: Transaction

record listAccountsResponseData =
  Data_Accounts :: "Account list"

record listTransactionsResponseData =
  Data_Transactions :: "Transaction list"

record authResponseData =
  Expires :: time
  Token :: string

type_synonym getTransactionResponse = "getTransactionResponseData response"
type_synonym listAccountsResponse = "listAccountsResponseData response"
type_synonym listTransactionsResponse = "listTransactionsResponseData response"
type_synonym authResponse = "authResponseData response"

text \<open>An RSA private key (modulus and private exponent); the package only passes it on.\<close>

datatype rsa_PrivateKey = RSAPrivateKey nat nat

text \<open>The dynamic types of the key that \<open>x509.ParsePKCS8PrivateKey\<close> may return.\<close>

datatype private_key =
    RSA_key rsa_PrivateKey
  | ECDSA_key string
  | Ed25519_key string
  | ECDH_key string

fun type_name :: "private_key \<Rightarrow> string" where
  "type_name (RSA_key k) = ''*rsa.PrivateKey''"
| "type_name (ECDSA_key k) = ''*ecdsa.PrivateKey''"
| "type_name (Ed25519_key k) = ''ed25519.PrivateKey''"
| "type_name (ECDH_key k) = ''*ecdh.PrivateKey''"

text \<open>\<open>oauth2.Token\<close>, with the fields that \<open>ts.Token\<close> sets.\<close>

record oauth2_Token =
  AccessToken :: string
  TokenType :: string
  Expiry :: time

section \<open>The libraries and the outside world\<close>

text \<open>
  The calls into the file system, the codecs and the cryptography are parameters of the
  model: each is a function from the call's arguments to an error or a result.
  \<open>json_Decode_*\<close> is \<open>json.NewDecoder(body).Decode(&v)\<close> for a target \<open>v\<close> of the named
  struct type (for \<open>authResponse\<close> it includes the decoding of the field \<open>Expires\<close>).
\<close>

record lib =
  os_ReadFile :: "string \<Rightarrow> error + string"
  base64_DecodeString :: "string \<Rightarrow> error + string"
  x509_ParsePKCS8PrivateKey :: "string \<Rightarrow> error + private_key"
  rsa_DecryptPKCS1v15 :: "rsa_PrivateKey \<Rightarrow> string \<Rightarrow> error + string"
  json_Decode_authResponse :: "string \<Rightarrow> error + authResponse"
  json_Decode_getTransactionResponse :: "string \<Rightarrow> error + getTransactionResponse"
  json_Decode_listAccountsResponse :: "string \<Rightarrow> error + listAccountsResponse"
  json_Decode_listTransactionsResponse :: "string \<Rightarrow> error + listTransactionsResponse"

text \<open>
  The world holds the clock, what the network will answer to the next requests (a
  transport error or a response body) and the requests sent so far, each with its URL and
  its \<open>Authorization\<close> header. A request that finds no answer fails in the transport.
  The clock is read where the code reads it; no time passes during one call.
\<close>

record world =
  now :: time
  responses :: "(error + string) list"
  requests :: "(string \<times> string option) list"

definition roundTrip :: "string \<Rightarrow> string option \<Rightarrow> world \<Rightarrow> (error + string) \<times> world" where
  "roundTrip url auth w =
     (case responses w of
        [] \<Rightarrow> (Inl (LibError ''no response''), w\<lparr>requests := requests w @ [(url, auth)]\<rparr>)
      | r # rs \<Rightarrow> (r, w\<lparr>responses := rs, requests := requests w @ [(url, auth)]\<rparr>))"

text \<open>\<open>http.Get\<close> of the default client: no header; a failure comes back as a \<open>url.Error\<close>.\<close>

definition http_Get :: "string \<Rightarrow> world \<Rightarrow> (error + string) \<times> world" where
  "http_Get url w =
     (case roundTrip url None w of
        (Inl e, w') \<Rightarrow> (Inl (UrlError ''Get'' url e), w')
      | (Inr body, w') \<Rightarrow> (Inr body, w'))"

section \<open>aplos.go: loading the key\<close>

definition LoadPrivateKey :: "lib \<Rightarrow> string \<Rightarrow> error + rsa_PrivateKey" where
  "LoadPrivateKey l dat =
     (case x509_ParsePKCS8PrivateKey l dat of
        Inl err \<Rightarrow> Inl (Errorf ''failed to parse key as PKCS8'' (Some err))
      | Inr k \<Rightarrow>
          (case k of
             RSA_key k \<Rightarrow> Inr k
           | _ \<Rightarrow> Inl (Errorf (''key was not an RSA key, was '' @ type_name k) None)))"

definition LoadPrivateKeyFromFile :: "lib \<Rightarrow> string \<Rightarrow> error + rsa_PrivateKey" where
  "LoadPrivateKeyFromFile l fp =
     (case os_ReadFile l fp of
        Inl err \<Rightarrow> Inl (Errorf ''failed to read key file'' (Some err))
      | Inr b64EncDat \<Rightarrow>
          (case base64_DecodeString l b64EncDat of
             Inl err \<Rightarrow> Inl (Errorf ''failed to base64 decode'' (Some err))
           | Inr dat \<Rightarrow> LoadPrivateKey l dat))"

section \<open>aplos.go: the token source\<close>

record ts =
  clientID :: string
  key :: rsa_PrivateKey

definition auth_url :: "string \<Rightarrow> string" where
  "auth_url cid = ''https://www.aplos.com/hermes/api/v1/auth/'' @ cid"

text \<open>\<open>func (t *ts) Token() (*oauth2.Token, error)\<close>.\<close>

definition ts_Token :: "lib \<Rightarrow> ts \<Rightarrow> world \<Rightarrow> (error + oauth2_Token) \<times> world" where
  "ts_Token l t w =
     (case http_Get (auth_url (clientID t)) w of
        (Inl err, w') \<Rightarrow> (Inl (Errorf ''failed to query auth endpoint'' (Some err)), w')
      | (Inr body, w') \<Rightarrow>
     (case json_Decode_authResponse l body of
        Inl err \<Rightarrow> (Inl (Errorf ''failed to decode auth response'' (Some err)), w')
      | Inr authResp \<Rightarrow>
     (case base64_DecodeString l (Token (Data authResp)) of
        Inl err \<Rightarrow> (Inl (Errorf ''failed to base64 decode encrypted token'' (Some err)), w')
      | Inr encToken \<Rightarrow>
     (case rsa_DecryptPKCS1v15 l (key t) encToken of
        Inl err \<Rightarrow> (Inl (Errorf ''failed to decrypt token'' (Some err)), w')
      | Inr dec \<Rightarrow>
          (Inr \<lparr>AccessToken = dec, TokenType = ''Bearer'', Expiry = Expires (Data authResp)\<rparr>,
           w')))))"

subsection \<open>oauth2.ReuseTokenSource\<close>

text \<open>
  Package \<open>golang.org/x/oauth2\<close>: a token is expired when its expiry is set (not the zero
  time) and lies less than \<open>expiryDelta\<close> (10 seconds) after the current time; it is valid
  when it is not nil, has an access token and is not expired. The source returned by
  \<open>ReuseTokenSource(t, src)\<close> holds \<open>t\<close>; its method \<open>Token\<close> returns the held token while
  that is valid, and otherwise asks \<open>src\<close> for a token, keeps it when \<open>src\<close> gives one, and
  returns what \<open>src\<close> returned.
\<close>

definition expiryDelta :: int where
  "expiryDelta = 10 * second"

definition expired :: "oauth2_Token \<Rightarrow> time \<Rightarrow> bool" where
  "expired t timeNow = (if Expiry t = 0 then False else Expiry t - expiryDelta < timeNow)"

definition Valid :: "oauth2_Token option \<Rightarrow> time \<Rightarrow> bool" where
  "Valid t timeNow =
     (case t of None \<Rightarrow> False | Some t \<Rightarrow> AccessToken t \<noteq> [] \<and> \<not> expired t timeNow)"

record reuseTokenSource =
  rts_t :: "oauth2_Token option"
  rts_new :: ts

definition reuseTokenSource_Token ::
  "lib \<Rightarrow> reuseTokenSource \<Rightarrow> world \<Rightarrow> (error + oauth2_Token) \<times> reuseTokenSource \<times> world" where
  "reuseTokenSource_Token l s w =
     (if Valid (rts_t s) (now w) then (Inr (the (rts_t s)), s, w)
      else case ts_Token l (rts_new s) w of
             (Inl err, w') \<Rightarrow> (Inl err, s, w')
           | (Inr t, w') \<Rightarrow> (Inr t, s\<lparr>rts_t := Some t\<rparr>, w'))"

definition newTokenSource ::
  "lib \<Rightarrow> string \<Rightarrow> rsa_PrivateKey \<Rightarrow> world \<Rightarrow> (error + reuseTokenSource) \<times> world" where
  "newTokenSource l cid k w =
     (let t = \<lparr>clientID = cid, key = k\<rparr>
      in case ts_Token l t w of
           (Inl err, w') \<Rightarrow> (Inl (Errorf ''failed to get token'' (Some err)), w')
         | (Inr tkn, w') \<Rightarrow> (Inr \<lparr>rts_t = Some tkn, rts_new = t\<rparr>, w'))"

section \<open>aplos.go: the client\<close>

text \<open>
  \<open>oauth2.NewClient(ctx, src)\<close> is an HTTP client whose transport asks the token source for
  a token before every request and sends it as \<open>Authorization: <type> <access token>\<close>;
  for a source that already is a reusing one, it uses that source as it is.
\<close>

record Client =
  http :: reuseTokenSource

definition New :: "lib \<Rightarrow> string \<Rightarrow> rsa_PrivateKey \<Rightarrow> world \<Rightarrow> (error + Client) \<times> world" where
  "New l cid pk w =
     (case newTokenSource l cid pk w of
        (Inl err, w') \<Rightarrow> (Inl (Errorf ''failed to get access token'' (Some err)), w')
      | (Inr src, w') \<Rightarrow> (Inr \<lparr>http = src\<rparr>, w'))"

text \<open>\<open>ctxhttp.Get(ctx, c.http, url)\<close>.\<close>

definition ctxhttp_Get ::
  "lib \<Rightarrow> Client \<Rightarrow> string \<Rightarrow> world \<Rightarrow> (error + string) \<times> Client \<times> world" where
  "ctxhttp_Get l c url w =
     (case reuseTokenSource_Token l (http c) w of
        (Inl err, s, w') \<Rightarrow> (Inl (UrlError ''Get'' url err), c\<lparr>http := s\<rparr>, w')
      | (Inr t, s, w') \<Rightarrow>
          (case roundTrip url (Some (TokenType t @ '' '' @ AccessToken t)) w' of
             (Inl err, w'') \<Rightarrow> (Inl (UrlError ''Get'' url err), c\<lparr>http := s\<rparr>, w'')
           | (Inr body, w'') \<Rightarrow> (Inr body, c\<lparr>http := s\<rparr>, w'')))"

definition Client_Transaction ::
  "lib \<Rightarrow> Client \<Rightarrow> int \<Rightarrow> world \<Rightarrow> (error + Transaction) \<times> Client \<times> world" where
  "Client_Transaction l c id' w =
     (case ctxhttp_Get l c (''https://www.aplos.com/hermes/api/v1/transactions/'' @ strconv_Itoa id') w of
        (Inl err, c', w') \<Rightarrow> (Inl (Errorf ''failed to list accounts'' (Some err)), c', w')
      | (Inr body, c', w') \<Rightarrow>
          (case json_Decode_getTransactionResponse l body of
             Inl err \<Rightarrow> (Inl (Errorf ''failed to decode get transaction response'' (Some err)), c', w')
           | Inr gResp \<Rightarrow> (Inr (Data_Transaction (Data gResp)), c', w')))"

subsection \<open>url.Values\<close>

text \<open>
  A \<open>url.Values\<close> maps a key to its values; the model keeps one entry per key. \<open>Add\<close>
  appends a value to the key's values. \<open>Encode\<close> goes through the keys in sorted order and
  writes \<open>key=value\<close> for each value, escaped, with \<open>&\<close> between them.
\<close>

type_synonym url_Values = "(string \<times> string list) list"

fun url_Values_Add :: "url_Values \<Rightarrow> string \<Rightarrow> string \<Rightarrow> url_Values" where
  "url_Values_Add [] k v = [(k, [v])]"
| "url_Values_Add ((k', vs) # q) k v =
     (if k' = k then (k', vs @ [v]) # q else (k', vs) # url_Values_Add q k v)"

definition isAlnum :: "char \<Rightarrow> bool" where
  "isAlnum c =
     (let n = (of_char c :: nat)
      in (97 \<le> n \<and> n \<le> 122) \<or> (65 \<le> n \<and> n \<le> 90) \<or> (48 \<le> n \<and> n \<le> 57))"

definition shouldEscape :: "char \<Rightarrow> bool" where
  "shouldEscape c =
     (if isAlnum c then False
      else if c = CHR ''-'' \<or> c = CHR ''_'' \<or> c = CHR ''.'' \<or> c = CHR ''~'' then False
      else True)"

definition upperhex :: "nat \<Rightarrow> char" where
  "upperhex n = ''0123456789ABCDEF'' ! n"

definition escape_char :: "char \<Rightarrow> string" where
  "escape_char c =
     (if c = CHR '' '' then ''+''
      else if shouldEscape c
        then [CHR ''%'', upperhex (of_char c div 16), upperhex (of_char c mod 16)]
      else [c])"

definition QueryEscape :: "string \<Rightarrow> string" where
  "QueryEscape s = concat (map escape_char s)"

definition write_pair :: "string \<Rightarrow> string \<Rightarrow> string \<Rightarrow> string" where
  "write_pair buf keyEscaped v =
     (if buf \<noteq> [] then buf @ ''&'' else buf) @ keyEscaped @ ''='' @ QueryEscape v"

definition url_Values_Encode :: "url_Values \<Rightarrow> string" where
  "url_Values_Encode q =
     foldl (\<lambda>buf k. foldl (\<lambda>buf v. write_pair buf (QueryEscape k) v) buf (the (map_of q k)))
       [] (sort (map fst q))"

subsection \<open>Listing accounts and transactions\<close>

record listAccountsOpts =
  accountName :: "string option"

type_synonym ListAccountOption = "listAccountsOpts \<Rightarrow> listAccountsOpts"

definition WithAccountName :: "string \<Rightarrow> ListAccountOption" where
  "WithAccountName acctName = (\<lambda>o'. o'\<lparr>accountName := Some acctName\<rparr>)"

definition accounts_query :: "listAccountsOpts \<Rightarrow> url_Values" where
  "accounts_query o' =
     (case accountName o' of None \<Rightarrow> [] | Some n \<Rightarrow> url_Values_Add [] ''f_name'' n)"

definition Client_Accounts ::
  "lib \<Rightarrow> Client \<Rightarrow> ListAccountOption list \<Rightarrow> world \<Rightarrow> (error + Account list) \<times> Client \<times> world" where
  "Client_Accounts l c opts w =
     (let o' = foldl (\<lambda>o' opt. opt o') \<lparr>accountName = None\<rparr> opts;
          q = accounts_query o'
      in case ctxhttp_Get l c (''https://www.aplos.com/hermes/api/v1/accounts?'' @ url_Values_Encode q) w of
           (Inl err, c', w') \<Rightarrow> (Inl (Errorf ''failed to list accounts'' (Some err)), c', w')
         | (Inr body, c', w') \<Rightarrow>
             (case json_Decode_listAccountsResponse l body of
                Inl err \<Rightarrow> (Inl (Errorf ''failed to decode list accounts response'' (Some err)), c', w')
              | Inr lResp \<Rightarrow> (Inr (Data_Accounts (Data lResp)), c', w')))"

record listTransactionsOpts =
  accountNumber :: "int option"
  rangeStart :: "Date option"
  rangeEnd :: "Date option"

type_synonym ListTransactionOption = "listTransactionsOpts \<Rightarrow> listTransactionsOpts"

definition WithAccountNumber :: "int \<Rightarrow> ListTransactionOption" where
  "WithAccountNumber acctNumber = (\<lambda>o'. o'\<lparr>accountNumber := Some acctNumber\<rparr>)"

definition WithRangeStart :: "int \<Rightarrow> int \<Rightarrow> int \<Rightarrow> ListTransactionOption" where
  "WithRangeStart year month day =
     (\<lambda>o'. o'\<lparr>rangeStart := Some \<lparr>Year = year, Month = month, Day = day\<rparr>\<rparr>)"

definition WithRangeEnd :: "int \<Rightarrow> int \<Rightarrow> int \<Rightarrow> ListTransactionOption" where
  "WithRangeEnd year month day =
     (\<lambda>o'. o'\<lparr>rangeEnd := Some \<lparr>Year = year, Month = month, Day = day\<rparr>\<rparr>)"

definition transactions_opts :: "ListTransactionOption list \<Rightarrow> listTransactionsOpts" where
  "transactions_opts opts =
     foldl (\<lambda>o' opt. opt o') \<lparr>accountNumber = None, rangeStart = None, rangeEnd = None\<rparr> opts"

definition transactions_query :: "listTransactionsOpts \<Rightarrow> url_Values" where
  "transactions_query o' =
     (let q = [];
          q = (case accountNumber o' of None \<Rightarrow> q
               | Some n \<Rightarrow> url_Values_Add q ''f_accountnumber'' (strconv_Itoa n));
          q = (case rangeStart o' of None \<Rightarrow> q
               | Some d \<Rightarrow> url_Values_Add q ''f_rangestart'' (Date_String d));
          q = (case rangeEnd o' of None \<Rightarrow> q
               | Some d \<Rightarrow> url_Values_Add q ''f_rangeend'' (Date_String d))
      in q)"

definition transactions_url :: "listTransactionsOpts \<Rightarrow> string" where
  "transactions_url o' =
     ''https://www.aplos.com/hermes/api/v1/transactions?'' @ url_Values_Encode (transactions_query o')"

definition Client_Transactions ::
  "lib \<Rightarrow> Client \<Rightarrow> ListTransactionOption list \<Rightarrow> world \<Rightarrow>
     (error + Transaction list) \<times> Client \<times> world" where
  "Client_Transactions l c opts w =
     (case ctxhttp_Get l c (transactions_url (transactions_opts opts)) w of
        (Inl err, c', w') \<Rightarrow> (Inl (Errorf ''failed to list transactions'' (Some err)), c', w')
      | (Inr body, c', w') \<Rightarrow>
          (case json_Decode_listTransactionsResponse l body of
             Inl err \<Rightarrow>
               (Inl (Errorf ''failed to decode list transactions response'' (Some err)), c', w')
           | Inr lResp \<Rightarrow> (Inr (Data_Transactions (Data lResp)), c', w')))"

section \<open>Predicates of the specification\<close>

text \<open>The number that a string of decimal digits denotes.\<close>

definition dec_value :: "string \<Rightarrow> nat" where
  "dec_value s = foldl (\<lambda>a c. a * 10 + digit_val c) 0 s"

text \<open>
  \<open>zero_padded wid s n\<close>: the string \<open>s\<close> is the number \<open>n\<close> written in decimal digits and
  padded with zeros on the left to \<open>wid\<close> digits: it has at least \<open>wid\<close> digits, and no
  leading zero beyond them.
\<close>

definition zero_padded :: "nat \<Rightarrow> string \<Rightarrow> int \<Rightarrow> bool" where
  "zero_padded wid s n =
     (list_all isDigit s \<and> int (dec_value s) = n \<and> wid \<le> length s \<and>
      (wid < length s \<longrightarrow> hd s \<noteq> CHR ''0''))"

text \<open>A date whose month and day exist in the calendar (the year is any integer).\<close>

definition valid_date :: "Date \<Rightarrow> bool" where
  "valid_date d =
     (1 \<le> Month d \<and> Month d \<le> 12 \<and> 1 \<le> Day d \<and> Day d \<le> daysIn (Month d) (Year d))"

text \<open>The form \<open>YYYY-MM-DD\<close>: four digits, a dash, two digits, a dash, two digits.\<close>

definition YYYY_MM_DD_shape :: "string \<Rightarrow> bool" where
  "YYYY_MM_DD_shape s =
     (length s = 10 \<and> list_all isDigit (take 4 s) \<and> s ! 4 = CHR ''-'' \<and>
      list_all isDigit (take 2 (drop 5 s)) \<and> s ! 7 = CHR ''-'' \<and>
      list_all isDigit (drop 8 s))"

definition date_of_string :: "string \<Rightarrow> Date" where
  "date_of_string s =
     \<lparr>Year = int (dec_value (take 4 s)),
      Month = int (dec_value (take 2 (drop 5 s))),
      Day = int (dec_value (drop 8 s))\<rparr>"

text \<open>
  A string of the form \<open>YYYY-MM-DD\<close> that names a day of the calendar: beyond the form, its
  month is between 01 and 12 and its day exists in that month of that year.
\<close>

definition names_calendar_date :: "string \<Rightarrow> bool" where
  "names_calendar_date s = (YYYY_MM_DD_shape s \<and> valid_date (date_of_string s))"

text \<open>
  One query parameter \<open>key=value\<close> for a present field and none for an absent one, and the
  parameters of a query joined by \<open>&\<close>.
\<close>

definition query_param :: "string \<Rightarrow> string option \<Rightarrow> string list" where
  "query_param k v = (case v of None \<Rightarrow> [] | Some v \<Rightarrow> [k @ ''='' @ v])"

fun join_amp :: "string list \<Rightarrow> string" where
  "join_amp [] = []"
| "join_amp [x] = x"
| "join_amp (x # y # ys) = x @ ''&'' @ join_amp (y # ys)"

text \<open>
  The options that a caller passes for a filter whose three fields are present or absent.
\<close>

definition filter_options :: "int option \<Rightarrow> Date option \<Rightarrow> Date option \<Rightarrow> ListTransactionOption list" where
  "filter_options a s e =
     (case a of None \<Rightarrow> [] | Some n \<Rightarrow> [WithAccountNumber n]) @
     (case s of None \<Rightarrow> [] | Some d \<Rightarrow> [WithRangeStart (Year d) (Month d) (Day d)]) @
     (case e of None \<Rightarrow> [] | Some d \<Rightarrow> [WithRangeEnd (Year d) (Month d) (Day d)])"

section \<open>A library instance and a server for the examples\<close>

text \<open>
  The examples run the model on a library that knows a few inputs: four bodies that the
  authentication endpoint may send, one body of an error response, two key files, and the
  ciphertext \<open>secret\<close> that the key \<open>demo_key\<close> decrypts to the access token \<open>token-1\<close>.
  Times are nanoseconds since the zero time: \<open>t_2020\<close> is 2020-01-01T00:00:00Z, 737424
  days after it, and \<open>t_2019\<close> is 2019-01-01T00:00:00Z.
\<close>

definition t_2020 :: time where
  "t_2020 = 737424 * 86400 * second"

definition t_2019 :: time where
  "t_2019 = 737059 * 86400 * second"

definition demo_key :: rsa_PrivateKey where
  "demo_key = RSAPrivateKey 3233 2753"

definition body_ok :: string where
  \<open>body_ok = ''{"version":"v1","status":200,"data":{"expires":"2020-01-01T12:00:00.000+0000","token":"c2VjcmV0"}}''\<close>

definition body_stale :: string where
  \<open>body_stale = ''{"version":"v1","status":200,"data":{"expires":"2019-01-01T00:00:00.000+0000","token":"c2VjcmV0"}}''\<close>

definition body_bad_base64 :: string where
  \<open>body_bad_base64 = ''{"version":"v1","status":200,"data":{"expires":"2020-01-01T12:00:00.000+0000","token":"!!!"}}''\<close>

definition body_bad_ciphertext :: string where
  \<open>body_bad_ciphertext = ''{"version":"v1","status":200,"data":{"expires":"2020-01-01T12:00:00.000+0000","token":"Z2FyYmFnZQ=="}}''\<close>

definition body_status_500 :: string where
  \<open>body_status_500 = ''{"version":"v1","status":500}''\<close>

definition zero_Transaction :: Transaction where
  "zero_Transaction =
     \<lparr>Transaction_ID = 0, Memo = [], Transaction_Date = \<lparr>Year = 0, Month = 0, Day = 0\<rparr>,
      IDNumber = 0, Created = 0, Amount = 0, InClosedPeriod = False, Lines = []\<rparr>"

definition demo_auth :: "string \<Rightarrow> error + authResponse" where
  "demo_auth body =
     (if body = body_ok then
        Inr \<lparr>Version = ''v1'', Status = 200,
             Data = \<lparr>Expires = t_2020 + 12 * 3600 * second, Token = ''c2VjcmV0''\<rparr>\<rparr>
      else if body = body_stale then
        Inr \<lparr>Version = ''v1'', Status = 200, Data = \<lparr>Expires = t_2019, Token = ''c2VjcmV0''\<rparr>\<rparr>
      else if body = body_bad_base64 then
        Inr \<lparr>Version = ''v1'', Status = 200,
             Data = \<lparr>Expires = t_2020 + 12 * 3600 * second, Token = ''!!!''\<rparr>\<rparr>
      else if body = body_bad_ciphertext then
        Inr \<lparr>Version = ''v1'', Status = 200,
             Data = \<lparr>Expires = t_2020 + 12 * 3600 * second, Token = ''Z2FyYmFnZQ==''\<rparr>\<rparr>
      else Inl (LibError ''invalid character''))"

definition demo_base64 :: "string \<Rightarrow> error + string" where
  "demo_base64 s =
     (if s = ''c2VjcmV0'' then Inr ''secret''
      else if s = ''Z2FyYmFnZQ=='' then Inr ''garbage''
      else if s = ''ZGVyLXJzYQ=='' then Inr ''der-rsa''
      else if s = ''ZGVyLWVj'' then Inr ''der-ec''
      else Inl (LibError ''illegal base64 data''))"

definition demo_lib :: lib where
  "demo_lib =
     \<lparr>os_ReadFile = (\<lambda>fp.
        if fp = ''rsa.key'' then Inr ''ZGVyLXJzYQ==''
        else if fp = ''ec.key'' then Inr ''ZGVyLWVj''
        else if fp = ''broken.key'' then Inr ''***''
        else Inl (LibError ''no such file or directory'')),
      base64_DecodeString = demo_base64,
      x509_ParsePKCS8PrivateKey = (\<lambda>dat.
        if dat = ''der-rsa'' then Inr (RSA_key demo_key)
        else if dat = ''der-ec'' then Inr (ECDSA_key ''P-256'')
        else Inl (LibError ''x509: failed to parse private key'')),
      rsa_DecryptPKCS1v15 = (\<lambda>k c.
        if k = demo_key \<and> c = ''secret'' then Inr ''token-1''
        else Inl (LibError ''crypto/rsa: decryption error'')),
      json_Decode_authResponse = demo_auth,
      json_Decode_getTransactionResponse = (\<lambda>body.
        if body = body_status_500 then
          Inr \<lparr>Version = ''v1'', Status = 500, Data = \<lparr>Data_Transaction = zero_Transaction\<rparr>\<rparr>
        else Inl (LibError ''invalid character'')),
      json_Decode_listAccountsResponse = (\<lambda>body.
        if body = body_status_500 then
          Inr \<lparr>Version = ''v1'', Status = 500, Data = \<lparr>Data_Accounts = []\<rparr>\<rparr>
        else Inl (LibError ''invalid character'')),
      json_Decode_listTransactionsResponse = (\<lambda>body.
        if body = body_status_500 then
          Inr \<lparr>Version = ''v1'', Status = 500, Data = \<lparr>Data_Transactions = []\<rparr>\<rparr>
        else Inl (LibError ''invalid character''))\<rparr>"

definition demo_ts :: ts where
  "demo_ts = \<lparr>clientID = ''my-client'', key = demo_key\<rparr>"

definition demo_token :: "time \<Rightarrow> oauth2_Token" where
  "demo_token exp = \<lparr>AccessToken = ''token-0'', TokenType = ''Bearer'', Expiry = exp\<rparr>"

definition demo_client :: "time \<Rightarrow> Client" where
  "demo_client exp = \<lparr>http = \<lparr>rts_t = Some (demo_token exp), rts_new = demo_ts\<rparr>\<rparr>"

definition demo_world :: "(error + string) list \<Rightarrow> world" where
  "demo_world rs = \<lparr>now = t_2020, responses = rs, requests = []\<rparr>"

text \<open>
  Three JSON values for a date field, and \<open>json.Unmarshal\<close> into a string on them: the
  first two are strings, the third is a number.
\<close>

definition json_2020_02_29 :: string where
  \<open>json_2020_02_29 = ''"2020-02-29"''\<close>

definition json_2020_02_30 :: string where
  \<open>json_2020_02_30 = ''"2020-02-30"''\<close>

definition demo_Unmarshal_string :: "string \<Rightarrow> error + string" where
  "demo_Unmarshal_string data =
     (if data = json_2020_02_29 then Inr ''2020-02-29''
      else if data = json_2020_02_30 then Inr ''2020-02-30''
      else Inl (LibError ''json: cannot unmarshal number into Go value of type string''))"


section \<open>Decimal digits\<close>

lemma isDigit_digit_char: "n < 10 \<Longrightarrow> isDigit (digit_char n)"
  by (simp add: isDigit_def digit_char_def)

lemma digit_val_digit_char: "n < 10 \<Longrightarrow> digit_val (digit_char n) = n"
  by (simp add: digit_val_def digit_char_def)

lemma isDigit_zero: "isDigit (CHR ''0'')"
  by (simp add: isDigit_def)

lemma digit_val_zero: "digit_val (CHR ''0'') = 0"
  by (simp add: digit_val_def)

lemma not_isDigit_dash: "\<not> isDigit (CHR ''-'')"
  by (simp add: isDigit_def)

lemma itoa_nat_digits: "list_all isDigit (itoa_nat n)"
proof (induction n rule: itoa_nat.induct)
  case (1 n)
  show ?case
  proof (cases "n < 10")
    case True
    then show ?thesis by (simp add: itoa_nat.simps [of n] isDigit_digit_char)
  next
    case False
    with 1 show ?thesis by (simp add: itoa_nat.simps [of n] isDigit_digit_char)
  qed
qed

lemma foldl_itoa_nat: "foldl (\<lambda>a c. a * 10 + digit_val c) 0 (itoa_nat n) = n"
proof (induction n rule: itoa_nat.induct)
  case (1 n)
  show ?case
  proof (cases "n < 10")
    case True
    then show ?thesis by (simp add: itoa_nat.simps [of n] digit_val_digit_char)
  next
    case False
    with 1 show ?thesis by (simp add: itoa_nat.simps [of n] digit_val_digit_char)
  qed
qed

lemma itoa_nat_nonempty: "itoa_nat n \<noteq> []"
  by (subst itoa_nat.simps) simp

lemma hd_itoa_nat: "0 < n \<Longrightarrow> hd (itoa_nat n) \<noteq> CHR ''0''"
proof (induction n rule: itoa_nat.induct)
  case (1 n)
  show ?case
  proof (cases "n < 10")
    case True
    have "digit_char n \<noteq> CHR ''0''"
    proof
      assume "digit_char n = CHR ''0''"
      then have "digit_val (digit_char n) = 0" by (simp add: digit_val_zero)
      with True 1(2) show False by (simp add: digit_val_digit_char)
    qed
    with True show ?thesis by (simp add: itoa_nat.simps [of n])
  next
    case False
    with 1 show ?thesis by (simp add: itoa_nat.simps [of n] itoa_nat_nonempty)
  qed
qed

lemma length_itoa_nat: "n < 10 ^ k \<Longrightarrow> 0 < k \<Longrightarrow> length (itoa_nat n) \<le> k"
proof (induction n arbitrary: k rule: itoa_nat.induct)
  case (1 n)
  show ?case
  proof (cases "n < 10")
    case True
    with 1(3) show ?thesis by (simp add: itoa_nat.simps [of n])
  next
    case False
    obtain j where k: "k = Suc j" using 1(3) by (cases k) auto
    from False 1(2) k have j: "0 < j" by (cases j) auto
    from 1(2) k have "n div 10 < 10 ^ j" by (simp add: less_mult_imp_div_less mult.commute)
    with 1(1) [OF False _ j] have "length (itoa_nat (n div 10)) \<le> j" by simp
    with False k show ?thesis by (simp add: itoa_nat.simps [of n])
  qed
qed

lemma foldl_replicate_zero:
  "foldl (\<lambda>a c. a * 10 + digit_val c) 0 (replicate k (CHR ''0'') @ s) = foldl (\<lambda>a c. a * 10 + digit_val c) 0 s"
  by (induction k) (simp_all add: digit_val_zero)

lemma leadingInt_digits:
  "list_all isDigit s \<Longrightarrow> leadingInt x s = (foldl (\<lambda>a c. a * 10 + digit_val c) x s, [])"
  by (induction s arbitrary: x) simp_all

section \<open>Formatting and parsing a date\<close>

lemma fmt_zero_d_nonneg:
  "0 \<le> n \<Longrightarrow> fmt_zero_d wid n = replicate (wid - length (itoa_nat (nat n))) (CHR ''0'') @ itoa_nat (nat n)"
  by (simp add: fmt_zero_d_def Let_def)

lemma length_itoa_nat_gt1: "1 < length (itoa_nat n) \<Longrightarrow> 0 < n"
  by (cases "n = 0") (simp_all add: itoa_nat.simps [of 0])

lemma fmt_zero_d_padded:
  assumes "0 \<le> n" "0 < wid"
  shows "zero_padded wid (fmt_zero_d wid n) n"
proof -
  let ?ds = "itoa_nat (nat n)"
  let ?s = "replicate (wid - length ?ds) (CHR ''0'') @ ?ds"
  have s: "fmt_zero_d wid n = ?s" using assms(1) by (rule fmt_zero_d_nonneg)
  have d: "list_all isDigit ?s"
    using itoa_nat_digits [of "nat n"] by (auto simp: list_all_iff isDigit_zero)
  have v: "int (dec_value ?s) = n"
    using assms(1) by (simp add: dec_value_def foldl_replicate_zero foldl_itoa_nat del: foldl_append)
  have l: "wid \<le> length ?s" by simp
  have h: "hd ?s \<noteq> CHR ''0''" if "wid < length ?s"
  proof -
    from that have w: "wid < length ?ds" by (cases "length ?ds \<le> wid") simp_all
    then have "?s = ?ds" by simp
    moreover from w assms(2) have "0 < nat n" by (intro length_itoa_nat_gt1) simp
    ultimately show ?thesis by (simp add: hd_itoa_nat)
  qed
  show ?thesis unfolding s zero_padded_def using d v l h by blast
qed

lemma fmt_zero_d_exact:
  assumes "0 \<le> n" "n < 10 ^ wid" "0 < wid"
  shows "length (fmt_zero_d wid n) = wid"
proof -
  from assms have "nat n < 10 ^ wid" by (simp add: nat_less_iff)
  then have "length (itoa_nat (nat n)) \<le> wid" using assms(3) by (rule length_itoa_nat)
  then show ?thesis using assms(1) by (simp add: fmt_zero_d_nonneg)
qed

lemma isDigit_not_sign: "isDigit c \<Longrightarrow> c \<noteq> CHR ''-'' \<and> c \<noteq> CHR ''+''"
  by (auto simp: isDigit_def)

lemma atoi_digits:
  "list_all isDigit s \<Longrightarrow> s \<noteq> [] \<Longrightarrow> atoi s = Inr (int (dec_value s))"
  by (cases s) (auto simp: atoi_def Let_def leadingInt_digits dec_value_def dest: isDigit_not_sign)

lemma getnum_two_digits:
  "list_all isDigit s \<Longrightarrow> length s = 2 \<Longrightarrow> getnum (s @ r) True = Inr (int (dec_value s), r)"
proof -
  assume a: "list_all isDigit s" "length s = 2"
  then obtain a b where "s = [a, b]"
    by (cases s; cases "tl s") auto
  with a show ?thesis by (cases r) (simp_all add: dec_value_def)
qed

lemma getnum_two_digits_end:
  "list_all isDigit s \<Longrightarrow> length s = 2 \<Longrightarrow> getnum s True = Inr (int (dec_value s), [])"
  using getnum_two_digits [of s "[]"] by simp

lemma time_Parse_date_fields:
  assumes ys: "list_all isDigit ys" "length ys = 4"
    and ms: "list_all isDigit ms" "length ms = 2"
    and ds: "list_all isDigit ds" "length ds = 2"
    and m: "1 \<le> int (dec_value ms)" "int (dec_value ms) \<le> 12"
    and d: "1 \<le> int (dec_value ds)" "int (dec_value ds) \<le> daysIn (int (dec_value ms)) (int (dec_value ys))"
  shows "time_Parse_date (ys @ ''-'' @ ms @ ''-'' @ ds)
           = Inr (int (dec_value ys), int (dec_value ms), int (dec_value ds))"
proof -
  from ys have hd: "isDigit (hd (ys @ ''-'' @ ms @ ''-'' @ ds))" by (cases ys) auto
  from ys have ne: "ys \<noteq> []" by auto
  have g1: "getnum (ms @ CHR ''-'' # ds) True = Inr (int (dec_value ms), CHR ''-'' # ds)"
    using ms by (rule getnum_two_digits)
  have g2: "getnum ds True = Inr (int (dec_value ds), [])"
    using ds by (rule getnum_two_digits_end)
  show ?thesis
    unfolding time_Parse_date_def
    using hd ys(2) m d by (simp add: atoi_digits [OF ys(1) ne] g1 g2)
qed

lemma Date_String_roundtrip:
  assumes "valid_date d" "0 \<le> Year d" "Year d \<le> 9999"
  shows "parseDate (Date_String d) = Inr d"
proof -
  let ?ys = "fmt_zero_d 4 (Year d)" and ?ms = "fmt_zero_d 2 (Month d)" and ?ds = "fmt_zero_d 2 (Day d)"
  from assms(1) have m: "1 \<le> Month d" "Month d \<le> 12" and dd: "1 \<le> Day d" "Day d \<le> daysIn (Month d) (Year d)"
    by (simp_all add: valid_date_def)
  have "daysIn (Month d) (Year d) \<le> 31" by (simp add: daysIn_def)
  with dd have d31: "Day d \<le> 31" by simp
  have py: "zero_padded 4 ?ys (Year d)" using assms(2) by (intro fmt_zero_d_padded) simp_all
  have pm: "zero_padded 2 ?ms (Month d)" using m by (intro fmt_zero_d_padded) simp_all
  have pd: "zero_padded 2 ?ds (Day d)" using dd by (intro fmt_zero_d_padded) simp_all
  have ly: "length ?ys = 4" using assms(2,3) by (intro fmt_zero_d_exact) simp_all
  have lm: "length ?ms = 2" using m by (intro fmt_zero_d_exact) simp_all
  have ld: "length ?ds = 2" using dd d31 by (intro fmt_zero_d_exact) simp_all
  have "time_Parse_date (?ys @ ''-'' @ ?ms @ ''-'' @ ?ds)
           = Inr (int (dec_value ?ys), int (dec_value ?ms), int (dec_value ?ds))"
    using py pm pd ly lm ld m dd by (intro time_Parse_date_fields) (simp_all add: zero_padded_def)
  also have "\<dots> = Inr (Year d, Month d, Day d)"
    using py pm pd by (simp add: zero_padded_def)
  finally show ?thesis by (simp add: parseDate_def Date_String_def)
qed

lemma Date_String_padded:
  assumes "0 \<le> Year d" "0 \<le> Month d" "0 \<le> Day d"
  shows "\<exists>ys ms ds. Date_String d = ys @ ''-'' @ ms @ ''-'' @ ds \<and>
           zero_padded 4 ys (Year d) \<and> zero_padded 2 ms (Month d) \<and> zero_padded 2 ds (Day d)"
proof (intro exI conjI)
  show "Date_String d = fmt_zero_d 4 (Year d) @ ''-'' @ fmt_zero_d 2 (Month d) @ ''-'' @ fmt_zero_d 2 (Day d)"
    by (simp add: Date_String_def)
  show "zero_padded 4 (fmt_zero_d 4 (Year d)) (Year d)" using assms(1) by (intro fmt_zero_d_padded) simp_all
  show "zero_padded 2 (fmt_zero_d 2 (Month d)) (Month d)" using assms(2) by (intro fmt_zero_d_padded) simp_all
  show "zero_padded 2 (fmt_zero_d 2 (Day d)) (Day d)" using assms(3) by (intro fmt_zero_d_padded) simp_all
qed

lemma digit_char_simps:
  "digit_char 0 = CHR ''0''" "digit_char 1 = CHR ''1''" "digit_char (Suc 0) = CHR ''1''" "digit_char 2 = CHR ''2''"
  "digit_char 3 = CHR ''3''" "digit_char 4 = CHR ''4''" "digit_char 5 = CHR ''5''"
  "digit_char 6 = CHR ''6''" "digit_char 7 = CHR ''7''" "digit_char 8 = CHR ''8''"
  "digit_char 9 = CHR ''9''"
  by code_simp+

lemma replicate_simps:
  "replicate 1 c = [c]" "replicate 2 c = [c, c]" "replicate 3 c = [c, c, c]"
  by (simp_all add: numeral_2_eq_2 numeral_3_eq_3)

lemmas eval_simps = replicate_simps digit_char_simps itoa_nat.simps fmt_zero_d_def Date_String_def Let_def
  isDigit_def digit_val_def atoi_def time_Parse_date_def parseDate_def parse_error_def
  daysIn_def isLeap_def valid_date_def strconv_Itoa_def

lemma length_10_conv:
  "length s = 10 \<Longrightarrow> \<exists>a b c d e f g h i j. s = [a, b, c, d, e, f, g, h, i, j]"
  by (auto simp: eval_nat_numeral length_Suc_conv)

lemma length_4_conv:
  "length s = 4 \<Longrightarrow> \<exists>a b c d. s = [a, b, c, d]"
  by (auto simp: eval_nat_numeral length_Suc_conv)

lemma parseDate_accepts:
  assumes "names_calendar_date s"
  shows "parseDate s = Inr (date_of_string s)"
proof -
  from assms have sh: "YYYY_MM_DD_shape s" and v: "valid_date (date_of_string s)"
    by (simp_all add: names_calendar_date_def)
  from sh have "length s = 10" by (simp add: YYYY_MM_DD_shape_def)
  from length_10_conv [OF this]
  obtain a b c d e f g h i j where s: "s = [a, b, c, d, e, f, g, h, i, j]"
    by (elim exE)
  from sh s have e: "e = CHR ''-''" and h: "h = CHR ''-''"
    by (simp_all add: YYYY_MM_DD_shape_def)
  let ?ys = "[a, b, c, d]" and ?ms = "[f, g]" and ?ds = "[i, j]"
  have s': "s = ?ys @ ''-'' @ ?ms @ ''-'' @ ?ds" using s e h by simp
  have dy: "list_all isDigit ?ys" and dm: "list_all isDigit ?ms" and dd: "list_all isDigit ?ds"
    using sh s by (simp_all add: YYYY_MM_DD_shape_def)
  have dos: "date_of_string s = \<lparr>Year = int (dec_value ?ys), Month = int (dec_value ?ms), Day = int (dec_value ?ds)\<rparr>"
    using s by (simp add: date_of_string_def)
  have "time_Parse_date (?ys @ ''-'' @ ?ms @ ''-'' @ ?ds)
          = Inr (int (dec_value ?ys), int (dec_value ?ms), int (dec_value ?ds))"
    using dy dm dd v unfolding dos valid_date_def
    by (intro time_Parse_date_fields) simp_all
  then show ?thesis unfolding dos by (simp add: s e h parseDate_def)
qed

lemma leadingInt_all:
  "leadingInt x t = (q, []) \<Longrightarrow> list_all isDigit t \<and> q = foldl (\<lambda>a c. a * 10 + digit_val c) x t"
  by (induction t arbitrary: x) (auto split: if_splits)

lemma atoi_Inr:
  assumes "t \<noteq> []" "isDigit (hd t)" "atoi t = Inr y"
  shows "list_all isDigit t \<and> y = int (dec_value t)"
proof -
  from assms(1,2) have ns: "hd t \<noteq> CHR ''-''" "hd t \<noteq> CHR ''+''"
    using isDigit_not_sign by blast+
  obtain q r where l: "leadingInt 0 t = (q, r)" by (cases "leadingInt 0 t")
  with assms ns have "r = []" and "y = int q"
    by (auto simp: atoi_def Let_def split: if_splits)
  with l leadingInt_all [of 0 t q] show ?thesis by (simp add: dec_value_def)
qed

lemma skip_Inr: "skip v p = Inr r \<Longrightarrow> v = p # r"
  by (cases v) (auto split: if_splits)

lemma getnum_fixed_Inr:
  "getnum v True = Inr (n, r) \<Longrightarrow>
     \<exists>a b. v = a # b # r \<and> isDigit a \<and> isDigit b \<and> n = int (dec_value [a, b])"
  by (cases "(v, True)" rule: getnum.cases) (auto simp: dec_value_def split: if_splits)

lemma time_Parse_date_Inr:
  assumes "time_Parse_date s = Inr (y, m, d)"
  shows "names_calendar_date s \<and> date_of_string s = \<lparr>Year = y, Month = m, Day = d\<rparr>"
proof -
  from assms have len: "4 \<le> length s" and hd: "isDigit (hd s)"
    by (auto simp: time_Parse_date_def split: if_splits)
  from assms len hd obtain year v1 month v2 v3 day v4 where
    a: "atoi (take 4 s) = Inr year" and
    s1: "skip (drop 4 s) (CHR ''-'') = Inr v1" and
    g1: "getnum v1 True = Inr (month, v2)" and
    mr: "\<not> (month \<le> 0 \<or> 12 < month)" and
    s2: "skip v2 (CHR ''-'') = Inr v3" and
    g2: "getnum v3 True = Inr (day, v4)" and
    v4: "v4 = []" and
    dr: "\<not> (day < 1 \<or> day > daysIn month year)" and
    res: "(y, m, d) = (year, month, day)"
    by (auto simp: time_Parse_date_def split: if_splits sum.splits prod.splits)
  from len have t4: "length (take 4 s) = 4" by simp
  from length_4_conv [OF this]
  obtain y1 y2 y3 y4 where ys: "take 4 s = [y1, y2, y3, y4]"
    by (elim exE)
  from len hd ys have "isDigit (hd (take 4 s))" by (cases s) auto
  with atoi_Inr [OF _ _ a] ys have dy: "list_all isDigit [y1, y2, y3, y4]" and yv: "year = int (dec_value [y1, y2, y3, y4])"
    by auto
  from g1 obtain a1 b1 where v1: "v1 = a1 # b1 # v2" and d1: "isDigit a1" "isDigit b1"
    and mv: "month = int (dec_value [a1, b1])" using getnum_fixed_Inr by blast
  from g2 v4 obtain a2 b2 where v3: "v3 = [a2, b2]" and d2: "isDigit a2" "isDigit b2"
    and dv: "day = int (dec_value [a2, b2])" using getnum_fixed_Inr by blast
  have "s = take 4 s @ drop 4 s" by simp
  moreover have "drop 4 s = CHR ''-'' # v1" using s1 by (rule skip_Inr)
  moreover have "v2 = CHR ''-'' # v3" using s2 by (rule skip_Inr)
  ultimately have s: "s = [y1, y2, y3, y4, CHR ''-'', a1, b1, CHR ''-'', a2, b2]"
    using ys v1 v3 by simp
  show ?thesis
    using dy d1 d2 mr dr res yv mv dv
    by (simp add: s names_calendar_date_def YYYY_MM_DD_shape_def date_of_string_def valid_date_def)
qed

lemma parseDate_Inr_iff: "parseDate s = Inr d \<longleftrightarrow> names_calendar_date s \<and> d = date_of_string s"
proof
  assume p: "parseDate s = Inr d"
  then obtain y m dd where t: "time_Parse_date s = Inr (y, m, dd)" and d: "d = \<lparr>Year = y, Month = m, Day = dd\<rparr>"
    by (auto simp: parseDate_def split: sum.splits)
  from time_Parse_date_Inr [OF t] d show "names_calendar_date s \<and> d = date_of_string s" by simp
next
  assume "names_calendar_date s \<and> d = date_of_string s"
  then show "parseDate s = Inr d" by (simp add: parseDate_accepts)
qed

lemma parseDate_rejects:
  "\<not> names_calendar_date s \<Longrightarrow> \<exists>e. parseDate s = Inl (Errorf ''failed to parse date'' (Some e))"
proof -
  assume n: "\<not> names_calendar_date s"
  show ?thesis
  proof (cases "time_Parse_date s")
    case (Inl e)
    then show ?thesis by (simp add: parseDate_def)
  next
    case (Inr t)
    then have "parseDate s = Inr \<lparr>Year = fst t, Month = fst (snd t), Day = snd (snd t)\<rparr>"
      by (cases t) (simp add: parseDate_def)
    with n parseDate_Inr_iff show ?thesis by blast
  qed
qed


section \<open>The token source\<close>

lemma roundTrip_requests:
  "requests (snd (roundTrip url auth w)) = requests w @ [(url, auth)]"
  by (simp add: roundTrip_def split: list.splits)

lemma http_Get_requests:
  "requests (snd (http_Get url w)) = requests w @ [(url, None)]"
  using roundTrip_requests [of url None w]
  by (auto simp: http_Get_def split: prod.splits sum.splits)

lemma ts_Token_snd: "snd (ts_Token l t w) = snd (http_Get (auth_url (clientID t)) w)"
  by (simp add: ts_Token_def split: prod.splits sum.splits)

lemma ts_Token_requests:
  "requests (snd (ts_Token l t w)) = requests w @ [(auth_url (clientID t), None)]"
  by (simp add: ts_Token_snd http_Get_requests)

lemma Valid_iff:
  "Valid (Some t) n \<longleftrightarrow> AccessToken t \<noteq> [] \<and> (Expiry t = 0 \<or> n + 10 * second \<le> Expiry t)"
  by (auto simp: Valid_def expired_def expiryDelta_def)

lemma reuse_valid:
  "Valid (rts_t s) (now w) \<Longrightarrow> reuseTokenSource_Token l s w = (Inr (the (rts_t s)), s, w)"
  by (simp add: reuseTokenSource_Token_def)

lemma reuse_invalid:
  "\<not> Valid (rts_t s) (now w) \<Longrightarrow>
     reuseTokenSource_Token l s w =
       (fst (ts_Token l (rts_new s) w),
        (case fst (ts_Token l (rts_new s) w) of Inl err \<Rightarrow> s | Inr t \<Rightarrow> s\<lparr>rts_t := Some t\<rparr>),
        snd (ts_Token l (rts_new s) w))"
  by (simp add: reuseTokenSource_Token_def split: prod.splits sum.splits)

lemma reuse_invalid_requests:
  "\<not> Valid (rts_t s) (now w) \<Longrightarrow>
     requests (snd (snd (reuseTokenSource_Token l s w)))
       = requests w @ [(auth_url (clientID (rts_new s)), None)]"
  by (simp add: reuse_invalid ts_Token_requests)

lemma reuse_no_request:
  assumes "reuseTokenSource_Token l s w = (Inr t, s', w')" "requests w' = requests w"
  shows "rts_t s = Some t \<and> s' = s \<and> w' = w \<and> Valid (Some t) (now w)"
proof (cases "Valid (rts_t s) (now w)")
  case True
  then obtain t0 where "rts_t s = Some t0" by (cases "rts_t s") (simp_all add: Valid_def)
  with True assms(1) show ?thesis by (simp add: reuse_valid)
next
  case False
  from reuse_invalid_requests [OF False, of l] assms show ?thesis by simp
qed


section \<open>Query strings and requests of the client\<close>

lemma isDigit_isAlnum: "isDigit c \<Longrightarrow> isAlnum c"
  by (simp add: isDigit_def isAlnum_def Let_def)

lemma isDigit_not_space: "isDigit c \<Longrightarrow> c \<noteq> CHR '' ''"
  by (auto simp: isDigit_def)

lemma escape_char_dash: "escape_char (CHR ''-'') = ''-''"
  by (simp add: escape_char_def shouldEscape_def)

lemma escape_char_digit: "isDigit c \<Longrightarrow> escape_char c = [c]"
  by (simp add: escape_char_def shouldEscape_def isDigit_isAlnum isDigit_not_space)

lemma escape_char_plain: "isDigit c \<or> c = CHR ''-'' \<Longrightarrow> escape_char c = [c]"
  using escape_char_dash escape_char_digit by blast

lemma QueryEscape_plain:
  "list_all (\<lambda>c. isDigit c \<or> c = CHR ''-'') s \<Longrightarrow> QueryEscape s = s"
  by (induction s) (simp_all add: QueryEscape_def escape_char_plain)

lemma itoa_nat_plain: "list_all (\<lambda>c. isDigit c \<or> c = CHR ''-'') (itoa_nat n)"
  using itoa_nat_digits [of n] by (simp add: list_all_iff)

lemma strconv_Itoa_plain: "list_all (\<lambda>c. isDigit c \<or> c = CHR ''-'') (strconv_Itoa n)"
  using itoa_nat_plain by (simp add: strconv_Itoa_def)

lemma fmt_zero_d_plain: "list_all (\<lambda>c. isDigit c \<or> c = CHR ''-'') (fmt_zero_d wid n)"
proof -
  have z: "list_all (\<lambda>c. isDigit c \<or> c = CHR ''-'') (replicate k (CHR ''0''))" for k
    by (simp add: list_all_iff isDigit_zero)
  show ?thesis
    using itoa_nat_plain [of "nat \<bar>n\<bar>"] z
    by (simp add: fmt_zero_d_def Let_def del: replicate.simps)
qed

lemma Date_String_plain: "list_all (\<lambda>c. isDigit c \<or> c = CHR ''-'') (Date_String d)"
  by (simp add: Date_String_def fmt_zero_d_plain)

lemma QueryEscape_Itoa: "QueryEscape (strconv_Itoa n) = strconv_Itoa n"
  by (rule QueryEscape_plain) (rule strconv_Itoa_plain)

lemma QueryEscape_Date_String: "QueryEscape (Date_String d) = Date_String d"
  by (rule QueryEscape_plain) (rule Date_String_plain)

lemma QueryEscape_keys:
  "QueryEscape ''f_accountnumber'' = ''f_accountnumber''"
  "QueryEscape ''f_rangestart'' = ''f_rangestart''"
  "QueryEscape ''f_rangeend'' = ''f_rangeend''"
  by (simp_all add: QueryEscape_def escape_char_def shouldEscape_def isAlnum_def)

lemma transactions_query_Encode:
  "url_Values_Encode (transactions_query o') =
     join_amp (query_param ''f_accountnumber'' (map_option strconv_Itoa (accountNumber o')) @
               query_param ''f_rangeend'' (map_option Date_String (rangeEnd o')) @
               query_param ''f_rangestart'' (map_option Date_String (rangeStart o')))"
  by (cases "accountNumber o'"; cases "rangeStart o'"; cases "rangeEnd o'")
     (simp_all add: transactions_query_def url_Values_Encode_def write_pair_def query_param_def
        QueryEscape_keys QueryEscape_Itoa QueryEscape_Date_String)

lemma transactions_query_lookup:
  "map_of (transactions_query o') ''f_accountnumber''
     = map_option (\<lambda>n. [strconv_Itoa n]) (accountNumber o') \<and>
   map_of (transactions_query o') ''f_rangestart''
     = map_option (\<lambda>d. [Date_String d]) (rangeStart o') \<and>
   map_of (transactions_query o') ''f_rangeend''
     = map_option (\<lambda>d. [Date_String d]) (rangeEnd o') \<and>
   distinct (map fst (transactions_query o')) \<and>
   set (map fst (transactions_query o')) \<subseteq> {''f_accountnumber'', ''f_rangestart'', ''f_rangeend''}"
  by (cases "accountNumber o'"; cases "rangeStart o'"; cases "rangeEnd o'")
     (simp_all add: transactions_query_def)

lemma ctxhttp_Get_valid:
  "Valid (rts_t (http c)) (now w) \<Longrightarrow>
     ctxhttp_Get l c url w =
       (case roundTrip url (Some (TokenType (the (rts_t (http c))) @ '' '' @ AccessToken (the (rts_t (http c))))) w of
          (Inl err, w'') \<Rightarrow> (Inl (UrlError ''Get'' url err), c, w'')
        | (Inr body, w'') \<Rightarrow> (Inr body, c, w''))"
  by (cases c) (simp add: ctxhttp_Get_def reuse_valid split: prod.splits sum.splits)

lemma ctxhttp_Get_valid_requests:
  "Valid (rts_t (http c)) (now w) \<Longrightarrow>
     requests (snd (snd (ctxhttp_Get l c url w))) =
       requests w @ [(url, Some (TokenType (the (rts_t (http c))) @ '' '' @ AccessToken (the (rts_t (http c)))))]"
  using roundTrip_requests [of url "Some (TokenType (the (rts_t (http c))) @ '' '' @ AccessToken (the (rts_t (http c))))" w]
  by (auto simp: ctxhttp_Get_valid split: prod.splits sum.splits)

lemma Client_Transactions_snd:
  "snd (Client_Transactions l c opts w) = snd (ctxhttp_Get l c (transactions_url (transactions_opts opts)) w)"
  by (simp add: Client_Transactions_def split: prod.splits sum.splits)

lemma Client_Transactions_request:
  "Valid (rts_t (http c)) (now w) \<Longrightarrow>
     requests (snd (snd (Client_Transactions l c opts w))) =
       requests w @ [(transactions_url (transactions_opts opts),
                      Some (TokenType (the (rts_t (http c))) @ '' '' @ AccessToken (the (rts_t (http c)))))]"
  by (simp add: Client_Transactions_snd ctxhttp_Get_valid_requests)

lemma example_url:
  "transactions_url (transactions_opts [WithAccountNumber 42, WithRangeStart 2020 1 1, WithRangeEnd 2020 1 31])
  = ''https://www.aplos.com/hermes/api/v1/transactions?f_accountnumber=42&f_rangeend=2020-01-31&f_rangestart=2020-01-01''"
  by (simp add: transactions_url_def transactions_opts_def WithAccountNumber_def WithRangeStart_def WithRangeEnd_def
     transactions_query_def url_Values_Encode_def write_pair_def QueryEscape_def escape_char_def shouldEscape_def isAlnum_def eval_simps)

lemma Client_Transaction_data:
  "ctxhttp_Get l c (''https://www.aplos.com/hermes/api/v1/transactions/'' @ strconv_Itoa id') w = (Inr body, c', w') \<Longrightarrow>
   json_Decode_getTransactionResponse l body = Inr \<lparr>Version = v, Status = st, Data = dat\<rparr> \<Longrightarrow>
   Client_Transaction l c id' w = (Inr (Data_Transaction dat), c', w')"
  by (simp add: Client_Transaction_def)

lemma Client_Accounts_data:
  "ctxhttp_Get l c (''https://www.aplos.com/hermes/api/v1/accounts?'' @
       url_Values_Encode (accounts_query (foldl (\<lambda>o' opt. opt o') \<lparr>accountName = None\<rparr> opts))) w = (Inr body, c', w') \<Longrightarrow>
   json_Decode_listAccountsResponse l body = Inr \<lparr>Version = v, Status = st, Data = dat\<rparr> \<Longrightarrow>
   Client_Accounts l c opts w = (Inr (Data_Accounts dat), c', w')"
  by (simp add: Client_Accounts_def Let_def)

lemma Client_Transactions_data:
  "ctxhttp_Get l c (transactions_url (transactions_opts opts)) w = (Inr body, c', w') \<Longrightarrow>
   json_Decode_listTransactionsResponse l body = Inr \<lparr>Version = v, Status = st, Data = dat\<rparr> \<Longrightarrow>
   Client_Transactions l c opts w = (Inr (Data_Transactions dat), c', w')"
  by (simp add: Client_Transactions_def)

lemma transactions_opts_Nil:
  "transactions_opts [] = \<lparr>accountNumber = None, rangeStart = None, rangeEnd = None\<rparr>"
  by (simp add: transactions_opts_def)

lemma transactions_opts_snoc: "transactions_opts (opts @ [opt]) = opt (transactions_opts opts)"
  by (simp add: transactions_opts_def)

lemma transactions_opts_filter_options:
  "transactions_opts (filter_options a s e) = \<lparr>accountNumber = a, rangeStart = s, rangeEnd = e\<rparr>"
  by (cases a; cases s; cases e)
     (simp_all add: transactions_opts_def filter_options_def WithAccountNumber_def
        WithRangeStart_def WithRangeEnd_def)

lemma transactions_url_params:
  "transactions_url o' =
     ''https://www.aplos.com/hermes/api/v1/transactions?'' @
     join_amp (query_param ''f_accountnumber'' (map_option strconv_Itoa (accountNumber o')) @
               query_param ''f_rangeend'' (map_option Date_String (rangeEnd o')) @
               query_param ''f_rangestart'' (map_option Date_String (rangeStart o')))"
  by (simp only: transactions_url_def transactions_query_Encode)

lemma ctxhttp_Get_token_ok:
  "reuseTokenSource_Token l (http c) w = (Inr t, src, wt) \<Longrightarrow>
     requests (snd (snd (ctxhttp_Get l c url w))) =
       requests wt @ [(url, Some (TokenType t @ '' '' @ AccessToken t))]"
  using roundTrip_requests [of url "Some (TokenType t @ '' '' @ AccessToken t)" wt]
  by (auto simp: ctxhttp_Get_def split: prod.splits sum.splits)

lemma ctxhttp_Get_token_err:
  "reuseTokenSource_Token l (http c) w = (Inl e, src, wt) \<Longrightarrow>
     ctxhttp_Get l c url w = (Inl (UrlError ''Get'' url e), c\<lparr>http := src\<rparr>, wt)"
  by (simp add: ctxhttp_Get_def)

lemma Client_Transactions_token_ok:
  "reuseTokenSource_Token l (http c) w = (Inr t, src, wt) \<Longrightarrow>
     requests (snd (snd (Client_Transactions l c opts w))) =
       requests wt @ [(transactions_url (transactions_opts opts),
                       Some (TokenType t @ '' '' @ AccessToken t))]"
  by (simp add: Client_Transactions_snd ctxhttp_Get_token_ok)

lemma Client_Transactions_token_err:
  "reuseTokenSource_Token l (http c) w = (Inl e, src, wt) \<Longrightarrow>
     Client_Transactions l c opts w =
       (Inl (Errorf ''failed to list transactions''
              (Some (UrlError ''Get'' (transactions_url (transactions_opts opts)) e))),
        c\<lparr>http := src\<rparr>, wt)"
  by (simp add: Client_Transactions_def ctxhttp_Get_token_err)



section \<open>Runs of the examples\<close>

lemmas demo_env_simps = demo_lib_def demo_auth_def demo_base64_def demo_ts_def demo_token_def
  demo_client_def demo_world_def demo_key_def body_ok_def body_stale_def body_bad_base64_def
  body_bad_ciphertext_def body_status_500_def t_2020_def t_2019_def second_def
  roundTrip_def auth_url_def

lemma demo_ts_Token_stale:
  "ts_Token demo_lib \<lparr>clientID = ''my-client'', key = demo_key\<rparr> (demo_world [Inr body_stale]) =
     (Inr \<lparr>AccessToken = ''token-1'', TokenType = ''Bearer'', Expiry = t_2019\<rparr>,
      \<lparr>now = t_2020, responses = [],
       requests = [(''https://www.aplos.com/hermes/api/v1/auth/my-client'', None)]\<rparr>)"
  by (simp add: ts_Token_def http_Get_def demo_env_simps)

lemma demo_ts_Token_ok:
  "ts_Token demo_lib \<lparr>clientID = ''my-client'', key = demo_key\<rparr> (demo_world [Inr body_ok]) =
     (Inr \<lparr>AccessToken = ''token-1'', TokenType = ''Bearer'', Expiry = t_2020 + 12 * 3600 * second\<rparr>,
      \<lparr>now = t_2020, responses = [],
       requests = [(''https://www.aplos.com/hermes/api/v1/auth/my-client'', None)]\<rparr>)"
  by (simp add: ts_Token_def http_Get_def demo_env_simps)

lemma demo_ts_Token_refused:
  "ts_Token demo_lib \<lparr>clientID = ''my-client'', key = demo_key\<rparr>
       (demo_world [Inl (LibError ''connection refused'')]) =
     (Inl (Errorf ''failed to query auth endpoint''
            (Some (UrlError ''Get'' ''https://www.aplos.com/hermes/api/v1/auth/my-client''
                    (LibError ''connection refused'')))),
      \<lparr>now = t_2020, responses = [],
       requests = [(''https://www.aplos.com/hermes/api/v1/auth/my-client'', None)]\<rparr>)"
  by (simp add: ts_Token_def http_Get_def demo_env_simps)

lemma demo_ctxhttp_Get:
  "ctxhttp_Get demo_lib (demo_client (t_2020 + 3600 * second)) url (demo_world [Inr body_status_500]) =
     (Inr body_status_500, demo_client (t_2020 + 3600 * second),
      \<lparr>now = t_2020, responses = [], requests = [(url, Some ''Bearer token-0'')]\<rparr>)"
proof -
  have v: "Valid (rts_t (http (demo_client (t_2020 + 3600 * second))))
             (now (demo_world [Inr body_status_500]))"
    by (simp add: Valid_iff demo_client_def demo_token_def demo_world_def second_def)
  show ?thesis
    unfolding ctxhttp_Get_valid [OF v]
    by (simp add: demo_client_def demo_token_def demo_world_def roundTrip_def)
qed

lemma demo_ts_Token_ok_then:
  "ts_Token demo_lib \<lparr>clientID = ''my-client'', key = demo_key\<rparr> (demo_world (Inr body_ok # rs)) =
     (Inr \<lparr>AccessToken = ''token-1'', TokenType = ''Bearer'', Expiry = t_2020 + 12 * 3600 * second\<rparr>,
      \<lparr>now = t_2020, responses = rs,
       requests = [(''https://www.aplos.com/hermes/api/v1/auth/my-client'', None)]\<rparr>)"
  by (simp add: ts_Token_def http_Get_def demo_env_simps)

lemma demo_client_valid:
  "Valid (rts_t (http (demo_client (t_2020 + 3600 * second)))) (now (demo_world rs))"
  by (simp add: Valid_iff demo_client_def demo_token_def demo_world_def second_def)

lemma demo_client_stale:
  "\<not> Valid (rts_t (http (demo_client t_2019))) (now (demo_world rs))"
  by (simp add: Valid_iff demo_client_def demo_token_def demo_world_def t_2019_def t_2020_def
      second_def)

lemma demo_reuse:
  "reuseTokenSource_Token demo_lib (http (demo_client (t_2020 + 3600 * second))) (demo_world rs) =
     (Inr (demo_token (t_2020 + 3600 * second)), http (demo_client (t_2020 + 3600 * second)),
      demo_world rs)"
  using demo_client_valid [of rs] by (simp add: reuse_valid) (simp add: demo_client_def)

lemma demo_refresh:
  "reuseTokenSource_Token demo_lib (http (demo_client t_2019)) (demo_world (Inr body_ok # rs)) =
     (Inr \<lparr>AccessToken = ''token-1'', TokenType = ''Bearer'', Expiry = t_2020 + 12 * 3600 * second\<rparr>,
      \<lparr>rts_t = Some \<lparr>AccessToken = ''token-1'', TokenType = ''Bearer'',
                      Expiry = t_2020 + 12 * 3600 * second\<rparr>, rts_new = demo_ts\<rparr>,
      \<lparr>now = t_2020, responses = rs,
       requests = [(''https://www.aplos.com/hermes/api/v1/auth/my-client'', None)]\<rparr>)"
proof -
  have d: "rts_new (http (demo_client t_2019)) = \<lparr>clientID = ''my-client'', key = demo_key\<rparr>"
    by (simp add: demo_client_def demo_ts_def)
  show ?thesis
    using demo_client_stale [of "Inr body_ok # rs"] demo_ts_Token_ok_then [of rs]
    by (simp add: reuse_invalid d) (simp add: demo_client_def)
qed

lemma demo_refresh_refused:
  "reuseTokenSource_Token demo_lib (http (demo_client t_2019))
       (demo_world [Inl (LibError ''connection refused'')]) =
     (Inl (Errorf ''failed to query auth endpoint''
            (Some (UrlError ''Get'' ''https://www.aplos.com/hermes/api/v1/auth/my-client''
                    (LibError ''connection refused'')))),
      http (demo_client t_2019),
      \<lparr>now = t_2020, responses = [],
       requests = [(''https://www.aplos.com/hermes/api/v1/auth/my-client'', None)]\<rparr>)"
proof -
  have d: "rts_new (http (demo_client t_2019)) = \<lparr>clientID = ''my-client'', key = demo_key\<rparr>"
    by (simp add: demo_client_def demo_ts_def)
  show ?thesis
    using demo_client_stale [of "[Inl (LibError ''connection refused'')]"] demo_ts_Token_refused
    by (simp add: reuse_invalid d)
qed


section \<open>Claims about the date codec\<close>

text \<open>
  C9, as amended. For every Date whose year, month and day are not negative, \<open>formatDate\<close>
  (\<open>Date.String\<close>) writes the year, a dash, the month, a dash and the day, the year
  zero-padded to at least four digits and the month and the day to at least two; and the
  three dates of the test are written \<open>0999-12-31\<close>, \<open>2020-01-02\<close> and \<open>1993-10-10\<close>.
\<close>

theorem Date_String_zero_padded:
  "(0 \<le> Year d \<and> 0 \<le> Month d \<and> 0 \<le> Day d \<longrightarrow>
      (\<exists>ys ms ds. Date_String d = ys @ ''-'' @ ms @ ''-'' @ ds \<and>
         zero_padded 4 ys (Year d) \<and> zero_padded 2 ms (Month d) \<and> zero_padded 2 ds (Day d))) \<and>
   Date_String \<lparr>Year = 999, Month = 12, Day = 31\<rparr> = ''0999-12-31'' \<and>
   Date_String \<lparr>Year = 2020, Month = 1, Day = 2\<rparr> = ''2020-01-02'' \<and>
   Date_String \<lparr>Year = 1993, Month = 10, Day = 10\<rparr> = ''1993-10-10''"
proof (intro conjI impI)
  assume "0 \<le> Year d \<and> 0 \<le> Month d \<and> 0 \<le> Day d"
  then show "\<exists>ys ms ds. Date_String d = ys @ ''-'' @ ms @ ''-'' @ ds \<and>
         zero_padded 4 ys (Year d) \<and> zero_padded 2 ms (Month d) \<and> zero_padded 2 ds (Day d)"
    by (intro Date_String_padded) simp_all
next
  show "Date_String \<lparr>Year = 999, Month = 12, Day = 31\<rparr> = ''0999-12-31''"
    by (simp add: eval_simps)
next
  show "Date_String \<lparr>Year = 2020, Month = 1, Day = 2\<rparr> = ''2020-01-02''"
    by (simp add: eval_simps)
next
  show "Date_String \<lparr>Year = 1993, Month = 10, Day = 10\<rparr> = ''1993-10-10''"
    by (simp add: eval_simps)
qed

theorem Date_String_zero_padded_witness:
  "\<exists>ys ms ds. Date_String \<lparr>Year = 999, Month = 12, Day = 31\<rparr> = ys @ ''-'' @ ms @ ''-'' @ ds \<and>
     zero_padded 4 ys 999 \<and> zero_padded 2 ms 12 \<and> zero_padded 2 ds 31"
proof -
  have "0 \<le> Year \<lparr>Year = 999, Month = 12, Day = 31\<rparr> \<and>
        0 \<le> Month \<lparr>Year = 999, Month = 12, Day = 31\<rparr> \<and>
        0 \<le> Day \<lparr>Year = 999, Month = 12, Day = 31\<rparr>"
    by simp
  with Date_String_zero_padded [of "\<lparr>Year = 999, Month = 12, Day = 31\<rparr>"]
  have "\<exists>ys ms ds. Date_String \<lparr>Year = 999, Month = 12, Day = 31\<rparr> = ys @ ''-'' @ ms @ ''-'' @ ds \<and>
     zero_padded 4 ys (Year \<lparr>Year = 999, Month = 12, Day = 31\<rparr>) \<and>
     zero_padded 2 ms (Month \<lparr>Year = 999, Month = 12, Day = 31\<rparr>) \<and>
     zero_padded 2 ds (Day \<lparr>Year = 999, Month = 12, Day = 31\<rparr>)"
    by blast
  then show ?thesis by simp
qed

text \<open>
  C9 as stated ("for every Date") fails at a negative year: the minus sign takes one
  position of the width, so the year \<open>-5\<close> is written with three digits, and the text does
  not start with a digit.
\<close>

theorem Date_String_negative_year:
  "Date_String \<lparr>Year = - 5, Month = 1, Day = 1\<rparr> = ''-005-01-01'' \<and>
   \<not> isDigit (hd (Date_String \<lparr>Year = - 5, Month = 1, Day = 1\<rparr>))"
  by (simp add: eval_simps)

text \<open>
  C4, as amended. For every valid date \<open>d\<close> whose year is between 0 and 9999, parsing the
  string that \<open>formatDate\<close> writes gives \<open>d\<close> back; so does \<open>UnmarshalJSON\<close> on a JSON value
  (other than \<open>null\<close>) that is that string.
\<close>

theorem parseDate_formatDate_roundtrip:
  "valid_date d \<Longrightarrow> 0 \<le> Year d \<Longrightarrow> Year d \<le> 9999 \<Longrightarrow>
     parseDate (Date_String d) = Inr d \<and>
     Date_UnmarshalJSON (\<lambda>data. Inr (Date_String d)) d0 data
       = (if data = ''null'' then (None, d0) else (None, d))"
  by (simp add: Date_String_roundtrip Date_UnmarshalJSON_def)

theorem parseDate_formatDate_roundtrip_witness:
  "valid_date \<lparr>Year = 2020, Month = 2, Day = 29\<rparr> \<and>
   Date_String \<lparr>Year = 2020, Month = 2, Day = 29\<rparr> = ''2020-02-29'' \<and>
   parseDate (Date_String \<lparr>Year = 2020, Month = 2, Day = 29\<rparr>)
     = Inr \<lparr>Year = 2020, Month = 2, Day = 29\<rparr> \<and>
   Date_UnmarshalJSON (\<lambda>data. Inr (Date_String \<lparr>Year = 2020, Month = 2, Day = 29\<rparr>))
       \<lparr>Year = 0, Month = 0, Day = 0\<rparr> ''2020-02-29''
     = (None, \<lparr>Year = 2020, Month = 2, Day = 29\<rparr>)"
proof -
  have v: "valid_date \<lparr>Year = 2020, Month = 2, Day = 29\<rparr>"
    by (simp add: valid_date_def daysIn_def isLeap_def)
  have s: "Date_String \<lparr>Year = 2020, Month = 2, Day = 29\<rparr> = ''2020-02-29''"
    by (simp add: eval_simps)
  show ?thesis
    using v s parseDate_formatDate_roundtrip
      [of "\<lparr>Year = 2020, Month = 2, Day = 29\<rparr>" "\<lparr>Year = 0, Month = 0, Day = 0\<rparr>" "''2020-02-29''"]
    by simp
qed

text \<open>
  C4 as stated fails at the first day of the year 10000, a valid date: its year is written
  with five digits, and the parser reads a year of exactly four.
\<close>

theorem parseDate_formatDate_year_10000:
  "valid_date \<lparr>Year = 10000, Month = 1, Day = 1\<rparr> \<and>
   Date_String \<lparr>Year = 10000, Month = 1, Day = 1\<rparr> = ''10000-01-01'' \<and>
   parseDate (Date_String \<lparr>Year = 10000, Month = 1, Day = 1\<rparr>)
     = Inl (Errorf ''failed to parse date'' (Some (parse_error [])))"
  by (simp add: eval_simps)

text \<open>
  C5, as amended. \<open>parseDate\<close> accepts exactly the strings of the form \<open>YYYY-MM-DD\<close> (four
  digits, a dash, two digits, a dash, two digits) that name a day of the calendar (a month
  from 01 to 12 and a day that exists in that month of that year), and gives the date they
  name; on every other string, so on every string that is not of the form, and on
  \<open>not-a-date\<close>, it fails with the error "failed to parse date" that wraps the parser's
  error. \<open>UnmarshalJSON\<close> on \<open>null\<close> reports no error and leaves the target as it was; on a
  JSON string that \<open>parseDate\<close> accepts it stores the date and reports no error; on any
  other JSON string it reports the error of \<open>parseDate\<close>, and on a JSON value that is not a
  string the error "failed to unmarshal JSON field as a string", and leaves the target as
  it was.
\<close>

theorem parseDate_accepts_exactly:
  "(parseDate s = Inr d \<longleftrightarrow> names_calendar_date s \<and> d = date_of_string s) \<and>
   (\<not> YYYY_MM_DD_shape s \<longrightarrow>
      (\<exists>e. parseDate s = Inl (Errorf ''failed to parse date'' (Some e)))) \<and>
   (\<not> names_calendar_date s \<longrightarrow>
      (\<exists>e. parseDate s = Inl (Errorf ''failed to parse date'' (Some e)))) \<and>
   parseDate ''not-a-date'' = Inl (Errorf ''failed to parse date'' (Some (parse_error []))) \<and>
   Date_UnmarshalJSON f d0 ''null'' = (None, d0) \<and>
   (data \<noteq> ''null'' \<and> f data = Inr s \<and> names_calendar_date s \<longrightarrow>
      Date_UnmarshalJSON f d0 data = (None, date_of_string s)) \<and>
   (data \<noteq> ''null'' \<and> f data = Inr s \<and> \<not> names_calendar_date s \<longrightarrow>
      (\<exists>e. Date_UnmarshalJSON f d0 data = (Some (Errorf ''failed to parse date'' (Some e)), d0))) \<and>
   (data \<noteq> ''null'' \<and> f data = Inl e' \<longrightarrow>
      Date_UnmarshalJSON f d0 data
        = (Some (Errorf ''failed to unmarshal JSON field as a string'' (Some e')), d0))"
proof (intro conjI impI)
  show "parseDate s = Inr d \<longleftrightarrow> names_calendar_date s \<and> d = date_of_string s"
    by (rule parseDate_Inr_iff)
next
  assume "\<not> YYYY_MM_DD_shape s"
  then have "\<not> names_calendar_date s" by (simp add: names_calendar_date_def)
  then show "\<exists>e. parseDate s = Inl (Errorf ''failed to parse date'' (Some e))"
    by (rule parseDate_rejects)
next
  assume "\<not> names_calendar_date s"
  then show "\<exists>e. parseDate s = Inl (Errorf ''failed to parse date'' (Some e))"
    by (rule parseDate_rejects)
next
  show "parseDate ''not-a-date'' = Inl (Errorf ''failed to parse date'' (Some (parse_error [])))"
    by (simp add: eval_simps)
next
  show "Date_UnmarshalJSON f d0 ''null'' = (None, d0)"
    by (simp add: Date_UnmarshalJSON_def)
next
  assume "data \<noteq> ''null'' \<and> f data = Inr s \<and> names_calendar_date s"
  then show "Date_UnmarshalJSON f d0 data = (None, date_of_string s)"
    by (simp add: Date_UnmarshalJSON_def parseDate_accepts)
next
  assume a: "data \<noteq> ''null'' \<and> f data = Inr s \<and> \<not> names_calendar_date s"
  then obtain e where "parseDate s = Inl (Errorf ''failed to parse date'' (Some e))"
    using parseDate_rejects by blast
  with a show "\<exists>e. Date_UnmarshalJSON f d0 data = (Some (Errorf ''failed to parse date'' (Some e)), d0)"
    by (simp add: Date_UnmarshalJSON_def)
next
  assume "data \<noteq> ''null'' \<and> f data = Inl e'"
  then show "Date_UnmarshalJSON f d0 data
        = (Some (Errorf ''failed to unmarshal JSON field as a string'' (Some e')), d0)"
    by (simp add: Date_UnmarshalJSON_def)
qed

text \<open>
  C5: the theorem at a date string, at a string without the form, at a string of the
  form that names no day, and \<open>UnmarshalJSON\<close> on a JSON string that is a date, on one that
  is not, and on a JSON number.
\<close>

theorem parseDate_accepts_exactly_witness:
  "names_calendar_date ''2020-02-29'' \<and>
   parseDate ''2020-02-29'' = Inr \<lparr>Year = 2020, Month = 2, Day = 29\<rparr> \<and>
   \<not> YYYY_MM_DD_shape ''not-a-date'' \<and>
   (\<exists>e. parseDate ''not-a-date'' = Inl (Errorf ''failed to parse date'' (Some e))) \<and>
   \<not> names_calendar_date ''2021-02-29'' \<and>
   (\<exists>e. parseDate ''2021-02-29'' = Inl (Errorf ''failed to parse date'' (Some e))) \<and>
   Date_UnmarshalJSON demo_Unmarshal_string \<lparr>Year = 1, Month = 2, Day = 3\<rparr> json_2020_02_29
     = (None, \<lparr>Year = 2020, Month = 2, Day = 29\<rparr>) \<and>
   (\<exists>e. Date_UnmarshalJSON demo_Unmarshal_string \<lparr>Year = 1, Month = 2, Day = 3\<rparr> json_2020_02_30
      = (Some (Errorf ''failed to parse date'' (Some e)), \<lparr>Year = 1, Month = 2, Day = 3\<rparr>)) \<and>
   Date_UnmarshalJSON demo_Unmarshal_string \<lparr>Year = 1, Month = 2, Day = 3\<rparr> ''20200229''
     = (Some (Errorf ''failed to unmarshal JSON field as a string''
          (Some (LibError ''json: cannot unmarshal number into Go value of type string''))),
        \<lparr>Year = 1, Month = 2, Day = 3\<rparr>)"
proof -
  let ?t = "\<lparr>Year = 1, Month = 2, Day = 3\<rparr>"
  have a: "names_calendar_date ''2020-02-29''"
    by (simp add: names_calendar_date_def YYYY_MM_DD_shape_def date_of_string_def dec_value_def
        valid_date_def daysIn_def isLeap_def isDigit_def digit_val_def)
  have b: "date_of_string ''2020-02-29'' = \<lparr>Year = 2020, Month = 2, Day = 29\<rparr>"
    by (simp add: date_of_string_def dec_value_def digit_val_def)
  have c: "\<not> YYYY_MM_DD_shape ''not-a-date''"
    by (simp add: YYYY_MM_DD_shape_def isDigit_def)
  have d: "\<not> names_calendar_date ''2021-02-29''"
    by (simp add: names_calendar_date_def YYYY_MM_DD_shape_def date_of_string_def dec_value_def
        valid_date_def daysIn_def isLeap_def isDigit_def digit_val_def)
  have d': "\<not> names_calendar_date ''2020-02-30''"
    by (simp add: names_calendar_date_def YYYY_MM_DD_shape_def date_of_string_def dec_value_def
        valid_date_def daysIn_def isLeap_def isDigit_def digit_val_def)
  have n: "json_2020_02_29 \<noteq> ''null''" "json_2020_02_30 \<noteq> ''null''" "''20200229'' \<noteq> ''null''"
    by (simp_all add: json_2020_02_29_def json_2020_02_30_def)
  have u: "demo_Unmarshal_string json_2020_02_29 = Inr ''2020-02-29''"
    "demo_Unmarshal_string json_2020_02_30 = Inr ''2020-02-30''"
    "demo_Unmarshal_string ''20200229''
       = Inl (LibError ''json: cannot unmarshal number into Go value of type string'')"
    by (simp_all add: demo_Unmarshal_string_def json_2020_02_29_def json_2020_02_30_def)
  from parseDate_accepts_exactly [of "''2020-02-29''" "\<lparr>Year = 2020, Month = 2, Day = 29\<rparr>"] a b
  have w1: "parseDate ''2020-02-29'' = Inr \<lparr>Year = 2020, Month = 2, Day = 29\<rparr>"
    by simp
  from parseDate_accepts_exactly [of "''not-a-date''"] c
  have w2: "\<exists>e. parseDate ''not-a-date'' = Inl (Errorf ''failed to parse date'' (Some e))"
    by blast
  from parseDate_accepts_exactly [of "''2021-02-29''"] d
  have w3: "\<exists>e. parseDate ''2021-02-29'' = Inl (Errorf ''failed to parse date'' (Some e))"
    by blast
  from parseDate_accepts_exactly [where s = "''2020-02-29''" and f = demo_Unmarshal_string
      and data = json_2020_02_29 and ?d0.0 = ?t] a n(1) u(1)
  have w4: "Date_UnmarshalJSON demo_Unmarshal_string ?t json_2020_02_29
      = (None, date_of_string ''2020-02-29'')"
    by blast
  from parseDate_accepts_exactly [where s = "''2020-02-30''" and f = demo_Unmarshal_string
      and data = json_2020_02_30 and ?d0.0 = ?t] d' n(2) u(2)
  have w5: "\<exists>e. Date_UnmarshalJSON demo_Unmarshal_string ?t json_2020_02_30
      = (Some (Errorf ''failed to parse date'' (Some e)), ?t)"
    by blast
  from parseDate_accepts_exactly [where f = demo_Unmarshal_string
      and data = "''20200229''" and ?d0.0 = ?t
      and e' = "LibError ''json: cannot unmarshal number into Go value of type string''"] n(3) u(3)
  have w6: "Date_UnmarshalJSON demo_Unmarshal_string ?t ''20200229''
     = (Some (Errorf ''failed to unmarshal JSON field as a string''
          (Some (LibError ''json: cannot unmarshal number into Go value of type string''))), ?t)"
    by blast
  from a c d w1 w2 w3 w4 w5 w6 show ?thesis by (simp add: b)
qed

text \<open>
  C5 as stated fails at \<open>2020-02-30\<close>: the string has the form \<open>YYYY-MM-DD\<close>, and
  \<open>parseDate\<close> rejects it, since February has no 30th day.
\<close>

theorem parseDate_rejects_february_30:
  "YYYY_MM_DD_shape ''2020-02-30'' \<and>
   parseDate ''2020-02-30''
     = Inl (Errorf ''failed to parse date'' (Some (parse_error '': day out of range'')))"
  by (simp add: YYYY_MM_DD_shape_def eval_simps)


section \<open>Claims about the key loader, the token provider and the client\<close>

text \<open>
  C1, as amended. Whenever the token source returns the token it holds, without a request
  to the server, that token has a non-empty access token and an expiry that is unset (the
  zero time) or at least 10 seconds after the current time; a token returned after a
  request is the one that the handshake produced, as the server sent it.
\<close>

theorem held_token_valid_when_reused:
  "reuseTokenSource_Token l s w = (Inr t, s', w') \<Longrightarrow>
     (requests w' = requests w \<longrightarrow>
        rts_t s = Some t \<and> AccessToken t \<noteq> [] \<and>
        (Expiry t = 0 \<or> now w' + 10 * second \<le> Expiry t)) \<and>
     (requests w' \<noteq> requests w \<longrightarrow> ts_Token l (rts_new s) w = (Inr t, w'))"
proof (rule conjI; rule impI)
  assume r: "reuseTokenSource_Token l s w = (Inr t, s', w')" and q: "requests w' = requests w"
  from reuse_no_request [OF r q]
  show "rts_t s = Some t \<and> AccessToken t \<noteq> [] \<and> (Expiry t = 0 \<or> now w' + 10 * second \<le> Expiry t)"
    by (simp add: Valid_iff)
next
  assume r: "reuseTokenSource_Token l s w = (Inr t, s', w')" and q: "requests w' \<noteq> requests w"
  have n: "\<not> Valid (rts_t s) (now w)"
  proof
    assume "Valid (rts_t s) (now w)"
    with r have "w' = w" by (simp add: reuse_valid)
    with q show False by simp
  qed
  with r show "ts_Token l (rts_new s) w = (Inr t, w')"
    by (cases "ts_Token l (rts_new s) w") (auto simp: reuse_invalid split: sum.splits)
qed

text \<open>C1: the theorem at a source that holds a valid token, and at one that refreshes.\<close>

theorem held_token_valid_when_reused_witness:
  "rts_t \<lparr>rts_t = Some (demo_token (t_2020 + 3600 * second)), rts_new = demo_ts\<rparr>
     = Some (demo_token (t_2020 + 3600 * second)) \<and>
   AccessToken (demo_token (t_2020 + 3600 * second)) \<noteq> [] \<and>
   (Expiry (demo_token (t_2020 + 3600 * second)) = 0 \<or>
    now (demo_world []) + 10 * second \<le> Expiry (demo_token (t_2020 + 3600 * second))) \<and>
   ts_Token demo_lib demo_ts (demo_world [Inr body_stale]) =
     (Inr \<lparr>AccessToken = ''token-1'', TokenType = ''Bearer'', Expiry = t_2019\<rparr>,
      \<lparr>now = t_2020, responses = [],
       requests = [(''https://www.aplos.com/hermes/api/v1/auth/my-client'', None)]\<rparr>)"
proof -
  have v: "Valid (rts_t \<lparr>rts_t = Some (demo_token (t_2020 + 3600 * second)), rts_new = demo_ts\<rparr>)
             (now (demo_world []))"
    by (simp add: Valid_iff demo_token_def demo_world_def second_def)
  have r1: "reuseTokenSource_Token demo_lib
       \<lparr>rts_t = Some (demo_token (t_2020 + 3600 * second)), rts_new = demo_ts\<rparr> (demo_world []) =
     (Inr (demo_token (t_2020 + 3600 * second)),
      \<lparr>rts_t = Some (demo_token (t_2020 + 3600 * second)), rts_new = demo_ts\<rparr>, demo_world [])"
    using v by (simp add: reuse_valid)
  have n: "\<not> Valid (rts_t \<lparr>rts_t = Some (demo_token t_2019), rts_new = demo_ts\<rparr>)
             (now (demo_world [Inr body_stale]))"
    by (simp add: Valid_iff demo_token_def demo_world_def t_2019_def t_2020_def second_def)
  have d: "demo_ts = \<lparr>clientID = ''my-client'', key = demo_key\<rparr>" by (simp add: demo_ts_def)
  have r2: "reuseTokenSource_Token demo_lib
       \<lparr>rts_t = Some (demo_token t_2019), rts_new = demo_ts\<rparr> (demo_world [Inr body_stale]) =
     (Inr \<lparr>AccessToken = ''token-1'', TokenType = ''Bearer'', Expiry = t_2019\<rparr>,
      \<lparr>rts_t = Some \<lparr>AccessToken = ''token-1'', TokenType = ''Bearer'', Expiry = t_2019\<rparr>,
       rts_new = demo_ts\<rparr>,
      \<lparr>now = t_2020, responses = [],
       requests = [(''https://www.aplos.com/hermes/api/v1/auth/my-client'', None)]\<rparr>)"
    using n demo_ts_Token_stale by (simp add: reuse_invalid d [symmetric])
  have q: "requests \<lparr>now = t_2020, responses = [],
       requests = [(''https://www.aplos.com/hermes/api/v1/auth/my-client'', None)]\<rparr>
        \<noteq> requests (demo_world [Inr body_stale])"
    by (simp add: demo_world_def)
  from held_token_valid_when_reused [OF r1] held_token_valid_when_reused [OF r2] q
  show ?thesis by simp
qed

text \<open>
  C1 as stated fails at a server whose envelope carries an expiry that is already past:
  the handshake (and so the construction of the token source) returns the token with that
  expiry, here a year before the current time.
\<close>

theorem fetched_token_already_expired:
  "ts_Token demo_lib demo_ts (demo_world [Inr body_stale]) =
     (Inr \<lparr>AccessToken = ''token-1'', TokenType = ''Bearer'', Expiry = t_2019\<rparr>,
      \<lparr>now = t_2020, responses = [],
       requests = [(''https://www.aplos.com/hermes/api/v1/auth/my-client'', None)]\<rparr>) \<and>
   fst (newTokenSource demo_lib ''my-client'' demo_key (demo_world [Inr body_stale])) =
     Inr \<lparr>rts_t = Some \<lparr>AccessToken = ''token-1'', TokenType = ''Bearer'', Expiry = t_2019\<rparr>,
          rts_new = demo_ts\<rparr> \<and>
   t_2019 < t_2020"
  using demo_ts_Token_stale
  by (simp add: newTokenSource_def Let_def demo_ts_def) (simp add: t_2019_def t_2020_def second_def)

text \<open>
  C2. \<open>fetchToken\<close> (\<open>ts.Token\<close>) sends one request to the authentication URL of the client
  identifier. When the transport fails it returns the error "failed to query auth
  endpoint" (the spec's NetworkError); when the body is not the JSON envelope, "failed to
  decode auth response", and when the blob is not base64, "failed to base64 decode
  encrypted token" (DecodeError); when the decryption with the private key fails, "failed
  to decrypt token" (CryptoError); each wraps its cause and no token is returned.
  Otherwise the token is the decrypted plaintext, as it is, of type Bearer, with the
  envelope's expiry.
\<close>

theorem ts_Token_handshake:
  "(roundTrip (auth_url (clientID t)) None w = (Inl e, w') \<longrightarrow>
      ts_Token l t w =
        (Inl (Errorf ''failed to query auth endpoint''
               (Some (UrlError ''Get'' (auth_url (clientID t)) e))), w')) \<and>
   (roundTrip (auth_url (clientID t)) None w = (Inr body, w') \<and>
    json_Decode_authResponse l body = Inl e \<longrightarrow>
      ts_Token l t w = (Inl (Errorf ''failed to decode auth response'' (Some e)), w')) \<and>
   (roundTrip (auth_url (clientID t)) None w = (Inr body, w') \<and>
    json_Decode_authResponse l body = Inr r \<and>
    base64_DecodeString l (Token (Data r)) = Inl e \<longrightarrow>
      ts_Token l t w = (Inl (Errorf ''failed to base64 decode encrypted token'' (Some e)), w')) \<and>
   (roundTrip (auth_url (clientID t)) None w = (Inr body, w') \<and>
    json_Decode_authResponse l body = Inr r \<and>
    base64_DecodeString l (Token (Data r)) = Inr encToken \<and>
    rsa_DecryptPKCS1v15 l (key t) encToken = Inl e \<longrightarrow>
      ts_Token l t w = (Inl (Errorf ''failed to decrypt token'' (Some e)), w')) \<and>
   (roundTrip (auth_url (clientID t)) None w = (Inr body, w') \<and>
    json_Decode_authResponse l body = Inr r \<and>
    base64_DecodeString l (Token (Data r)) = Inr encToken \<and>
    rsa_DecryptPKCS1v15 l (key t) encToken = Inr dec \<longrightarrow>
      ts_Token l t w =
        (Inr \<lparr>AccessToken = dec, TokenType = ''Bearer'', Expiry = Expires (Data r)\<rparr>, w')) \<and>
   requests (snd (ts_Token l t w)) = requests w @ [(auth_url (clientID t), None)]"
  by (simp add: ts_Token_requests) (simp add: ts_Token_def http_Get_def)

text \<open>C2: one run of the handshake for each of the five outcomes.\<close>

theorem ts_Token_handshake_witness:
  "ts_Token demo_lib demo_ts (demo_world [Inl (LibError ''connection refused'')]) =
     (Inl (Errorf ''failed to query auth endpoint''
            (Some (UrlError ''Get'' ''https://www.aplos.com/hermes/api/v1/auth/my-client''
                    (LibError ''connection refused'')))),
      \<lparr>now = t_2020, responses = [],
       requests = [(''https://www.aplos.com/hermes/api/v1/auth/my-client'', None)]\<rparr>) \<and>
   ts_Token demo_lib demo_ts (demo_world [Inr ''<html>'']) =
     (Inl (Errorf ''failed to decode auth response'' (Some (LibError ''invalid character''))),
      \<lparr>now = t_2020, responses = [],
       requests = [(''https://www.aplos.com/hermes/api/v1/auth/my-client'', None)]\<rparr>) \<and>
   ts_Token demo_lib demo_ts (demo_world [Inr body_bad_base64]) =
     (Inl (Errorf ''failed to base64 decode encrypted token''
            (Some (LibError ''illegal base64 data''))),
      \<lparr>now = t_2020, responses = [],
       requests = [(''https://www.aplos.com/hermes/api/v1/auth/my-client'', None)]\<rparr>) \<and>
   ts_Token demo_lib demo_ts (demo_world [Inr body_bad_ciphertext]) =
     (Inl (Errorf ''failed to decrypt token'' (Some (LibError ''crypto/rsa: decryption error''))),
      \<lparr>now = t_2020, responses = [],
       requests = [(''https://www.aplos.com/hermes/api/v1/auth/my-client'', None)]\<rparr>) \<and>
   ts_Token demo_lib demo_ts (demo_world [Inr body_ok]) =
     (Inr \<lparr>AccessToken = ''token-1'', TokenType = ''Bearer'',
           Expiry = t_2020 + 12 * 3600 * second\<rparr>,
      \<lparr>now = t_2020, responses = [],
       requests = [(''https://www.aplos.com/hermes/api/v1/auth/my-client'', None)]\<rparr>)"
proof -
  let ?w' = "\<lparr>now = t_2020, responses = [],
       requests = [(''https://www.aplos.com/hermes/api/v1/auth/my-client'', None)]\<rparr>"
  have r: "roundTrip ''https://www.aplos.com/hermes/api/v1/auth/my-client'' None (demo_world [x]) = (x, ?w')" for x
    by (simp add: demo_env_simps)
  have u: "auth_url (clientID demo_ts) = ''https://www.aplos.com/hermes/api/v1/auth/my-client''"
    by (simp add: demo_env_simps)
  have k: "key demo_ts = demo_key" by (simp add: demo_ts_def)
  have j1: "json_Decode_authResponse demo_lib ''<html>'' = Inl (LibError ''invalid character'')"
    by (simp add: demo_env_simps)
  have j2: "json_Decode_authResponse demo_lib body_bad_base64 =
      Inr \<lparr>Version = ''v1'', Status = 200,
           Data = \<lparr>Expires = t_2020 + 12 * 3600 * second, Token = ''!!!''\<rparr>\<rparr>"
    by (simp add: demo_env_simps)
  have j3: "json_Decode_authResponse demo_lib body_bad_ciphertext =
      Inr \<lparr>Version = ''v1'', Status = 200,
           Data = \<lparr>Expires = t_2020 + 12 * 3600 * second, Token = ''Z2FyYmFnZQ==''\<rparr>\<rparr>"
    by (simp add: demo_env_simps)
  have j4: "json_Decode_authResponse demo_lib body_ok =
      Inr \<lparr>Version = ''v1'', Status = 200,
           Data = \<lparr>Expires = t_2020 + 12 * 3600 * second, Token = ''c2VjcmV0''\<rparr>\<rparr>"
    by (simp add: demo_env_simps)
  have b1: "base64_DecodeString demo_lib ''!!!'' = Inl (LibError ''illegal base64 data'')"
    by (simp add: demo_env_simps)
  have b2: "base64_DecodeString demo_lib ''Z2FyYmFnZQ=='' = Inr ''garbage''"
    by (simp add: demo_env_simps)
  have b3: "base64_DecodeString demo_lib ''c2VjcmV0'' = Inr ''secret''"
    by (simp add: demo_env_simps)
  have d1: "rsa_DecryptPKCS1v15 demo_lib demo_key ''garbage'' = Inl (LibError ''crypto/rsa: decryption error'')"
    by (simp add: demo_env_simps)
  have d2: "rsa_DecryptPKCS1v15 demo_lib demo_key ''secret'' = Inr ''token-1''"
    by (simp add: demo_env_simps)
  show ?thesis
    using
      ts_Token_handshake [where t = demo_ts and l = demo_lib and w' = ?w'
        and w = "demo_world [Inl (LibError ''connection refused'')]"
        and e = "LibError ''connection refused''"]
      ts_Token_handshake [where t = demo_ts and l = demo_lib and w' = ?w'
        and w = "demo_world [Inr ''<html>'']" and body = "''<html>''"
        and e = "LibError ''invalid character''"]
      ts_Token_handshake [where t = demo_ts and l = demo_lib and w' = ?w'
        and w = "demo_world [Inr body_bad_base64]" and body = body_bad_base64
        and e = "LibError ''illegal base64 data''"
        and r = "\<lparr>Version = ''v1'', Status = 200,
           Data = \<lparr>Expires = t_2020 + 12 * 3600 * second, Token = ''!!!''\<rparr>\<rparr>"]
      ts_Token_handshake [where t = demo_ts and l = demo_lib and w' = ?w'
        and w = "demo_world [Inr body_bad_ciphertext]" and body = body_bad_ciphertext
        and e = "LibError ''crypto/rsa: decryption error''"
        and r = "\<lparr>Version = ''v1'', Status = 200,
           Data = \<lparr>Expires = t_2020 + 12 * 3600 * second, Token = ''Z2FyYmFnZQ==''\<rparr>\<rparr>"
        and encToken = "''garbage''"]
      ts_Token_handshake [where t = demo_ts and l = demo_lib and w' = ?w'
        and w = "demo_world [Inr body_ok]" and body = body_ok
        and r = "\<lparr>Version = ''v1'', Status = 200,
           Data = \<lparr>Expires = t_2020 + 12 * 3600 * second, Token = ''c2VjcmV0''\<rparr>\<rparr>"
        and encToken = "''secret''" and dec = "''token-1''"]
    by (simp add: r u k j1 j2 j3 j4 b1 b2 b3 d1 d2)
qed

text \<open>
  C3, as amended. For a provider that holds a token: if the token has a non-empty access
  token and its expiry is unset (the zero time) or at least 10 seconds after the current
  time, \<open>getToken\<close> returns that token and sends no request; otherwise it sends exactly
  one request, to the authentication URL, and when that handshake gives a token the
  provider holds and returns it, and when it fails the error is returned and the held
  token stays.
\<close>

theorem reuse_or_refresh:
  "rts_t s = Some held \<Longrightarrow>
     (AccessToken held \<noteq> [] \<and> (Expiry held = 0 \<or> now w + 10 * second \<le> Expiry held) \<longrightarrow>
        reuseTokenSource_Token l s w = (Inr held, s, w)) \<and>
     (\<not> (AccessToken held \<noteq> [] \<and> (Expiry held = 0 \<or> now w + 10 * second \<le> Expiry held)) \<longrightarrow>
        requests (snd (snd (reuseTokenSource_Token l s w)))
          = requests w @ [(auth_url (clientID (rts_new s)), None)] \<and>
        (\<forall>t w'. ts_Token l (rts_new s) w = (Inr t, w') \<longrightarrow>
           reuseTokenSource_Token l s w = (Inr t, s\<lparr>rts_t := Some t\<rparr>, w')) \<and>
        (\<forall>e w'. ts_Token l (rts_new s) w = (Inl e, w') \<longrightarrow>
           reuseTokenSource_Token l s w = (Inl e, s, w')))"
proof (intro conjI impI allI)
  assume h: "rts_t s = Some held"
    and v: "AccessToken held \<noteq> [] \<and> (Expiry held = 0 \<or> now w + 10 * second \<le> Expiry held)"
  then have "Valid (rts_t s) (now w)" by (simp add: Valid_iff)
  with h show "reuseTokenSource_Token l s w = (Inr held, s, w)" by (simp add: reuse_valid)
next
  assume h: "rts_t s = Some held"
    and v: "\<not> (AccessToken held \<noteq> [] \<and> (Expiry held = 0 \<or> now w + 10 * second \<le> Expiry held))"
  then have n: "\<not> Valid (rts_t s) (now w)" by (simp add: Valid_iff)
  then show "requests (snd (snd (reuseTokenSource_Token l s w)))
          = requests w @ [(auth_url (clientID (rts_new s)), None)]"
    by (rule reuse_invalid_requests)
  fix t w' assume "ts_Token l (rts_new s) w = (Inr t, w')"
  with n show "reuseTokenSource_Token l s w = (Inr t, s\<lparr>rts_t := Some t\<rparr>, w')"
    by (simp add: reuse_invalid)
next
  fix e w'
  assume h: "rts_t s = Some held"
    and v: "\<not> (AccessToken held \<noteq> [] \<and> (Expiry held = 0 \<or> now w + 10 * second \<le> Expiry held))"
    and t: "ts_Token l (rts_new s) w = (Inl e, w')"
  then have n: "\<not> Valid (rts_t s) (now w)" by (simp add: Valid_iff)
  with t show "reuseTokenSource_Token l s w = (Inl e, s, w')"
    by (simp add: reuse_invalid)
qed

text \<open>C3: a reuse, a refresh that succeeds and a refresh that fails.\<close>

theorem reuse_or_refresh_witness:
  "reuseTokenSource_Token demo_lib
       \<lparr>rts_t = Some (demo_token (t_2020 + 3600 * second)), rts_new = demo_ts\<rparr> (demo_world []) =
     (Inr (demo_token (t_2020 + 3600 * second)),
      \<lparr>rts_t = Some (demo_token (t_2020 + 3600 * second)), rts_new = demo_ts\<rparr>, demo_world []) \<and>
   reuseTokenSource_Token demo_lib
       \<lparr>rts_t = Some (demo_token t_2019), rts_new = demo_ts\<rparr> (demo_world [Inr body_ok]) =
     (Inr \<lparr>AccessToken = ''token-1'', TokenType = ''Bearer'', Expiry = t_2020 + 12 * 3600 * second\<rparr>,
      \<lparr>rts_t = Some \<lparr>AccessToken = ''token-1'', TokenType = ''Bearer'',
                      Expiry = t_2020 + 12 * 3600 * second\<rparr>, rts_new = demo_ts\<rparr>,
      \<lparr>now = t_2020, responses = [],
       requests = [(''https://www.aplos.com/hermes/api/v1/auth/my-client'', None)]\<rparr>) \<and>
   reuseTokenSource_Token demo_lib
       \<lparr>rts_t = Some (demo_token t_2019), rts_new = demo_ts\<rparr>
       (demo_world [Inl (LibError ''connection refused'')]) =
     (Inl (Errorf ''failed to query auth endpoint''
            (Some (UrlError ''Get'' ''https://www.aplos.com/hermes/api/v1/auth/my-client''
                    (LibError ''connection refused'')))),
      \<lparr>rts_t = Some (demo_token t_2019), rts_new = demo_ts\<rparr>,
      \<lparr>now = t_2020, responses = [],
       requests = [(''https://www.aplos.com/hermes/api/v1/auth/my-client'', None)]\<rparr>)"
proof -
  let ?s1 = "\<lparr>rts_t = Some (demo_token (t_2020 + 3600 * second)), rts_new = demo_ts\<rparr>"
  let ?s2 = "\<lparr>rts_t = Some (demo_token t_2019), rts_new = demo_ts\<rparr>"
  have d: "demo_ts = \<lparr>clientID = ''my-client'', key = demo_key\<rparr>" by (simp add: demo_ts_def)
  have h1: "rts_t ?s1 = Some (demo_token (t_2020 + 3600 * second))" by simp
  have h2: "rts_t ?s2 = Some (demo_token t_2019)" by simp
  have p1: "AccessToken (demo_token (t_2020 + 3600 * second)) \<noteq> [] \<and>
      (Expiry (demo_token (t_2020 + 3600 * second)) = 0 \<or>
       now (demo_world []) + 10 * second \<le> Expiry (demo_token (t_2020 + 3600 * second)))"
    by (simp add: demo_token_def demo_world_def second_def)
  have p2: "\<not> (AccessToken (demo_token t_2019) \<noteq> [] \<and>
      (Expiry (demo_token t_2019) = 0 \<or> now (demo_world rs) + 10 * second \<le> Expiry (demo_token t_2019)))"
    for rs
    by (simp add: demo_token_def demo_world_def t_2019_def t_2020_def second_def)
  have t1: "ts_Token demo_lib (rts_new ?s2) (demo_world [Inr body_ok]) =
     (Inr \<lparr>AccessToken = ''token-1'', TokenType = ''Bearer'', Expiry = t_2020 + 12 * 3600 * second\<rparr>,
      \<lparr>now = t_2020, responses = [],
       requests = [(''https://www.aplos.com/hermes/api/v1/auth/my-client'', None)]\<rparr>)"
    using demo_ts_Token_ok by (simp add: d)
  have t2: "ts_Token demo_lib (rts_new ?s2) (demo_world [Inl (LibError ''connection refused'')]) =
     (Inl (Errorf ''failed to query auth endpoint''
            (Some (UrlError ''Get'' ''https://www.aplos.com/hermes/api/v1/auth/my-client''
                    (LibError ''connection refused'')))),
      \<lparr>now = t_2020, responses = [],
       requests = [(''https://www.aplos.com/hermes/api/v1/auth/my-client'', None)]\<rparr>)"
    using demo_ts_Token_refused by (simp add: d)
  from reuse_or_refresh [OF h1, of "demo_world []" demo_lib] p1
  have c1: "reuseTokenSource_Token demo_lib ?s1 (demo_world []) =
      (Inr (demo_token (t_2020 + 3600 * second)), ?s1, demo_world [])"
    by blast
  from reuse_or_refresh [OF h2, of "demo_world [Inr body_ok]" demo_lib] p2 t1
  have c2: "reuseTokenSource_Token demo_lib ?s2 (demo_world [Inr body_ok]) =
     (Inr \<lparr>AccessToken = ''token-1'', TokenType = ''Bearer'', Expiry = t_2020 + 12 * 3600 * second\<rparr>,
      ?s2\<lparr>rts_t := Some \<lparr>AccessToken = ''token-1'', TokenType = ''Bearer'',
                      Expiry = t_2020 + 12 * 3600 * second\<rparr>\<rparr>,
      \<lparr>now = t_2020, responses = [],
       requests = [(''https://www.aplos.com/hermes/api/v1/auth/my-client'', None)]\<rparr>)"
    by blast
  from reuse_or_refresh [OF h2, of "demo_world [Inl (LibError ''connection refused'')]" demo_lib] p2 t2
  have c3: "reuseTokenSource_Token demo_lib ?s2 (demo_world [Inl (LibError ''connection refused'')]) =
     (Inl (Errorf ''failed to query auth endpoint''
            (Some (UrlError ''Get'' ''https://www.aplos.com/hermes/api/v1/auth/my-client''
                    (LibError ''connection refused'')))),
      ?s2,
      \<lparr>now = t_2020, responses = [],
       requests = [(''https://www.aplos.com/hermes/api/v1/auth/my-client'', None)]\<rparr>)"
    by blast
  from c1 c2 c3 show ?thesis by simp
qed

text \<open>
  C3 as stated fails for a held token that expires 5 seconds after the current time: its
  expiry is in the future, and the provider sends a request and replaces it.
\<close>

theorem reuse_refreshes_early:
  "AccessToken (demo_token (t_2020 + 5 * second)) = ''token-0'' \<and>
   now (demo_world [Inr body_ok]) < Expiry (demo_token (t_2020 + 5 * second)) \<and>
   reuseTokenSource_Token demo_lib
       \<lparr>rts_t = Some (demo_token (t_2020 + 5 * second)), rts_new = demo_ts\<rparr>
       (demo_world [Inr body_ok]) =
     (Inr \<lparr>AccessToken = ''token-1'', TokenType = ''Bearer'', Expiry = t_2020 + 12 * 3600 * second\<rparr>,
      \<lparr>rts_t = Some \<lparr>AccessToken = ''token-1'', TokenType = ''Bearer'',
                      Expiry = t_2020 + 12 * 3600 * second\<rparr>, rts_new = demo_ts\<rparr>,
      \<lparr>now = t_2020, responses = [],
       requests = [(''https://www.aplos.com/hermes/api/v1/auth/my-client'', None)]\<rparr>)"
proof -
  have v: "\<not> Valid (Some (demo_token (t_2020 + 5 * second))) (now (demo_world [Inr body_ok]))"
    by (simp add: Valid_iff demo_token_def demo_world_def t_2020_def second_def)
  have d: "demo_ts = \<lparr>clientID = ''my-client'', key = demo_key\<rparr>" by (simp add: demo_ts_def)
  have "reuseTokenSource_Token demo_lib
       \<lparr>rts_t = Some (demo_token (t_2020 + 5 * second)), rts_new = demo_ts\<rparr>
       (demo_world [Inr body_ok]) =
     (Inr \<lparr>AccessToken = ''token-1'', TokenType = ''Bearer'', Expiry = t_2020 + 12 * 3600 * second\<rparr>,
      \<lparr>rts_t = Some \<lparr>AccessToken = ''token-1'', TokenType = ''Bearer'',
                      Expiry = t_2020 + 12 * 3600 * second\<rparr>, rts_new = demo_ts\<rparr>,
      \<lparr>now = t_2020, responses = [],
       requests = [(''https://www.aplos.com/hermes/api/v1/auth/my-client'', None)]\<rparr>)"
    using v demo_ts_Token_ok by (simp add: reuse_invalid d [symmetric])
  then show ?thesis by (simp add: demo_token_def demo_world_def second_def)
qed

text \<open>
  C6. \<open>loadPrivateKeyFromBytes\<close> (\<open>LoadPrivateKey\<close>) fails with "failed to parse key as
  PKCS8" when the bytes are not a PKCS8 structure and with "key was not an RSA key" when
  the key is of another type (the spec's KeyError), and returns the key when it is an RSA
  key. \<open>loadPrivateKeyFromFile\<close> fails with "failed to read key file" when the file cannot
  be read (IOError) and with "failed to base64 decode" when its content is not base64
  (DecodeError), and otherwise is \<open>LoadPrivateKey\<close> on the decoded content.
\<close>

theorem LoadPrivateKey_errors:
  "(x509_ParsePKCS8PrivateKey l dat = Inl e \<longrightarrow>
      LoadPrivateKey l dat = Inl (Errorf ''failed to parse key as PKCS8'' (Some e))) \<and>
   (x509_ParsePKCS8PrivateKey l dat = Inr k \<and> (\<forall>r. k \<noteq> RSA_key r) \<longrightarrow>
      LoadPrivateKey l dat = Inl (Errorf (''key was not an RSA key, was '' @ type_name k) None)) \<and>
   (x509_ParsePKCS8PrivateKey l dat = Inr (RSA_key r) \<longrightarrow> LoadPrivateKey l dat = Inr r) \<and>
   (os_ReadFile l fp = Inl e \<longrightarrow>
      LoadPrivateKeyFromFile l fp = Inl (Errorf ''failed to read key file'' (Some e))) \<and>
   (os_ReadFile l fp = Inr b64EncDat \<and> base64_DecodeString l b64EncDat = Inl e \<longrightarrow>
      LoadPrivateKeyFromFile l fp = Inl (Errorf ''failed to base64 decode'' (Some e))) \<and>
   (os_ReadFile l fp = Inr b64EncDat \<and> base64_DecodeString l b64EncDat = Inr dat' \<longrightarrow>
      LoadPrivateKeyFromFile l fp = LoadPrivateKey l dat')"
  by (cases k) (simp_all add: LoadPrivateKey_def LoadPrivateKeyFromFile_def)

text \<open>C6: the six cases on the key files of the examples.\<close>

theorem LoadPrivateKey_errors_witness:
  "LoadPrivateKey demo_lib ''junk'' =
     Inl (Errorf ''failed to parse key as PKCS8'' (Some (LibError ''x509: failed to parse private key''))) \<and>
   LoadPrivateKey demo_lib ''der-ec'' =
     Inl (Errorf ''key was not an RSA key, was *ecdsa.PrivateKey'' None) \<and>
   LoadPrivateKey demo_lib ''der-rsa'' = Inr demo_key \<and>
   LoadPrivateKeyFromFile demo_lib ''missing.key'' =
     Inl (Errorf ''failed to read key file'' (Some (LibError ''no such file or directory''))) \<and>
   LoadPrivateKeyFromFile demo_lib ''broken.key'' =
     Inl (Errorf ''failed to base64 decode'' (Some (LibError ''illegal base64 data''))) \<and>
   LoadPrivateKeyFromFile demo_lib ''rsa.key'' = LoadPrivateKey demo_lib ''der-rsa''"
proof -
  have x1: "x509_ParsePKCS8PrivateKey demo_lib ''junk'' = Inl (LibError ''x509: failed to parse private key'')"
    by (simp add: demo_lib_def)
  have x2: "x509_ParsePKCS8PrivateKey demo_lib ''der-ec'' = Inr (ECDSA_key ''P-256'')"
    by (simp add: demo_lib_def)
  have x3: "x509_ParsePKCS8PrivateKey demo_lib ''der-rsa'' = Inr (RSA_key demo_key)"
    by (simp add: demo_lib_def)
  have f1: "os_ReadFile demo_lib ''missing.key'' = Inl (LibError ''no such file or directory'')"
    by (simp add: demo_lib_def)
  have f2: "os_ReadFile demo_lib ''broken.key'' = Inr ''***''"
    by (simp add: demo_lib_def)
  have f3: "os_ReadFile demo_lib ''rsa.key'' = Inr ''ZGVyLXJzYQ==''"
    by (simp add: demo_lib_def)
  have b1: "base64_DecodeString demo_lib ''***'' = Inl (LibError ''illegal base64 data'')"
    by (simp add: demo_lib_def demo_base64_def)
  have b2: "base64_DecodeString demo_lib ''ZGVyLXJzYQ=='' = Inr ''der-rsa''"
    by (simp add: demo_lib_def demo_base64_def)
  show ?thesis
    using
      LoadPrivateKey_errors [where l = demo_lib and dat = "''junk''"
        and e = "LibError ''x509: failed to parse private key''"]
      LoadPrivateKey_errors [where l = demo_lib and dat = "''der-ec''" and k = "ECDSA_key ''P-256''"]
      LoadPrivateKey_errors [where l = demo_lib and dat = "''der-rsa''" and r = demo_key]
      LoadPrivateKey_errors [where l = demo_lib and fp = "''missing.key''"
        and e = "LibError ''no such file or directory''"]
      LoadPrivateKey_errors [where l = demo_lib and fp = "''broken.key''" and b64EncDat = "''***''"
        and e = "LibError ''illegal base64 data''"]
      LoadPrivateKey_errors [where l = demo_lib and fp = "''rsa.key''"
        and b64EncDat = "''ZGVyLXJzYQ==''" and dat' = "''der-rsa''"]
    by (simp add: x1 x2 x3 f1 f2 f3 b1 b2)
qed

text \<open>
  C7. The construction of a client (\<open>New\<close>) sends the first request of the handshake,
  whatever comes of it. When the handshake fails, \<open>New\<close> returns the error "failed to get
  access token", which wraps "failed to get token", which wraps the cause, and no client;
  when it succeeds, the client holds the token.
\<close>

theorem New_eager_fetch:
  "requests (snd (New l cid pk w)) = requests w @ [(auth_url cid, None)] \<and>
   snd (New l cid pk w) = snd (ts_Token l \<lparr>clientID = cid, key = pk\<rparr> w) \<and>
   (fst (ts_Token l \<lparr>clientID = cid, key = pk\<rparr> w) = Inl e \<longrightarrow>
      fst (New l cid pk w) =
        Inl (Errorf ''failed to get access token'' (Some (Errorf ''failed to get token'' (Some e))))) \<and>
   (fst (ts_Token l \<lparr>clientID = cid, key = pk\<rparr> w) = Inr tkn \<longrightarrow>
      fst (New l cid pk w) =
        Inr \<lparr>http = \<lparr>rts_t = Some tkn, rts_new = \<lparr>clientID = cid, key = pk\<rparr>\<rparr>\<rparr>)"
proof -
  have s: "snd (New l cid pk w) = snd (ts_Token l \<lparr>clientID = cid, key = pk\<rparr> w)"
    by (simp add: New_def newTokenSource_def Let_def split: prod.splits sum.splits)
  have r: "requests (snd (New l cid pk w)) = requests w @ [(auth_url cid, None)]"
    unfolding s by (simp add: ts_Token_requests)
  show ?thesis
    using s r by (auto simp: New_def newTokenSource_def Let_def split: prod.splits sum.splits)
qed

text \<open>C7: a construction that fails and one that succeeds.\<close>

theorem New_eager_fetch_witness:
  "fst (New demo_lib ''my-client'' demo_key (demo_world [Inl (LibError ''connection refused'')])) =
     Inl (Errorf ''failed to get access token''
           (Some (Errorf ''failed to get token''
             (Some (Errorf ''failed to query auth endpoint''
               (Some (UrlError ''Get'' ''https://www.aplos.com/hermes/api/v1/auth/my-client''
                       (LibError ''connection refused'')))))))) \<and>
   fst (New demo_lib ''my-client'' demo_key (demo_world [Inr body_ok])) =
     Inr \<lparr>http = \<lparr>rts_t = Some \<lparr>AccessToken = ''token-1'', TokenType = ''Bearer'',
                                  Expiry = t_2020 + 12 * 3600 * second\<rparr>,
                  rts_new = \<lparr>clientID = ''my-client'', key = demo_key\<rparr>\<rparr>\<rparr>"
  using
    New_eager_fetch [where l = demo_lib and cid = "''my-client''" and pk = demo_key
      and w = "demo_world [Inl (LibError ''connection refused'')]"
      and e = "Errorf ''failed to query auth endpoint''
               (Some (UrlError ''Get'' ''https://www.aplos.com/hermes/api/v1/auth/my-client''
                       (LibError ''connection refused'')))"]
    New_eager_fetch [where l = demo_lib and cid = "''my-client''" and pk = demo_key
      and w = "demo_world [Inr body_ok]"
      and tkn = "\<lparr>AccessToken = ''token-1'', TokenType = ''Bearer'',
                                  Expiry = t_2020 + 12 * 3600 * second\<rparr>"]
  by (simp add: demo_ts_Token_refused demo_ts_Token_ok)

text \<open>
  C8. For every combination of the three filter fields, present or absent: the options
  of the filter set exactly those fields; the query has the key \<open>f_accountnumber\<close>,
  \<open>f_rangestart\<close> or \<open>f_rangeend\<close> exactly when the field is present, each with one value,
  the number in decimal or the date as \<open>formatDate\<close> writes it, and no other key; and the
  URL of the request is the endpoint followed by the present parameters \<open>key=value\<close>, in
  the order of the keys, joined by \<open>&\<close>. \<open>listTransactions\<close> sends its request to that URL
  whenever the token provider gives it a token (held or refreshed), and sends no request
  of its own when the provider fails. For account 42, from 2020-01-01 to 2020-01-31, all
  three parameters are in the URL.
\<close>

theorem transactions_query_parameters:
  "transactions_url o' =
     ''https://www.aplos.com/hermes/api/v1/transactions?'' @
     join_amp (query_param ''f_accountnumber'' (map_option strconv_Itoa (accountNumber o')) @
               query_param ''f_rangeend'' (map_option Date_String (rangeEnd o')) @
               query_param ''f_rangestart'' (map_option Date_String (rangeStart o'))) \<and>
   url_Values_Encode (transactions_query o') =
     join_amp (query_param ''f_accountnumber'' (map_option strconv_Itoa (accountNumber o')) @
               query_param ''f_rangeend'' (map_option Date_String (rangeEnd o')) @
               query_param ''f_rangestart'' (map_option Date_String (rangeStart o'))) \<and>
   map_of (transactions_query o') ''f_accountnumber''
     = map_option (\<lambda>n. [strconv_Itoa n]) (accountNumber o') \<and>
   map_of (transactions_query o') ''f_rangestart''
     = map_option (\<lambda>d. [Date_String d]) (rangeStart o') \<and>
   map_of (transactions_query o') ''f_rangeend''
     = map_option (\<lambda>d. [Date_String d]) (rangeEnd o') \<and>
   distinct (map fst (transactions_query o')) \<and>
   set (map fst (transactions_query o')) \<subseteq> {''f_accountnumber'', ''f_rangestart'', ''f_rangeend''} \<and>
   transactions_opts [] = \<lparr>accountNumber = None, rangeStart = None, rangeEnd = None\<rparr> \<and>
   transactions_opts (opts @ [WithAccountNumber n]) =
     (transactions_opts opts)\<lparr>accountNumber := Some n\<rparr> \<and>
   transactions_opts (opts @ [WithRangeStart y m dd]) =
     (transactions_opts opts)\<lparr>rangeStart := Some \<lparr>Year = y, Month = m, Day = dd\<rparr>\<rparr> \<and>
   transactions_opts (opts @ [WithRangeEnd y m dd]) =
     (transactions_opts opts)\<lparr>rangeEnd := Some \<lparr>Year = y, Month = m, Day = dd\<rparr>\<rparr> \<and>
   transactions_opts (filter_options a s e) =
     \<lparr>accountNumber = a, rangeStart = s, rangeEnd = e\<rparr> \<and>
   (reuseTokenSource_Token l (http c) w = (Inr t, src, wt) \<longrightarrow>
      requests (snd (snd (Client_Transactions l c opts w))) =
        requests wt @ [(transactions_url (transactions_opts opts),
                        Some (TokenType t @ '' '' @ AccessToken t))]) \<and>
   (reuseTokenSource_Token l (http c) w = (Inl err, src, wt) \<longrightarrow>
      Client_Transactions l c opts w =
        (Inl (Errorf ''failed to list transactions''
               (Some (UrlError ''Get'' (transactions_url (transactions_opts opts)) err))),
         c\<lparr>http := src\<rparr>, wt)) \<and>
   (Valid (rts_t (http c)) (now w) \<longrightarrow>
      requests (snd (snd (Client_Transactions l c opts w))) =
        requests w @ [(transactions_url (transactions_opts opts),
                       Some (TokenType (the (rts_t (http c))) @ '' '' @
                             AccessToken (the (rts_t (http c)))))]) \<and>
   transactions_opts [WithAccountNumber 42, WithRangeStart 2020 1 1, WithRangeEnd 2020 1 31] =
     \<lparr>accountNumber = Some 42, rangeStart = Some \<lparr>Year = 2020, Month = 1, Day = 1\<rparr>,
      rangeEnd = Some \<lparr>Year = 2020, Month = 1, Day = 31\<rparr>\<rparr> \<and>
   transactions_url
       (transactions_opts [WithAccountNumber 42, WithRangeStart 2020 1 1, WithRangeEnd 2020 1 31]) =
     ''https://www.aplos.com/hermes/api/v1/transactions?f_accountnumber=42&f_rangeend=2020-01-31&f_rangestart=2020-01-01''"
proof -
  have o: "transactions_opts [WithAccountNumber 42, WithRangeStart 2020 1 1, WithRangeEnd 2020 1 31] =
     \<lparr>accountNumber = Some 42, rangeStart = Some \<lparr>Year = 2020, Month = 1, Day = 1\<rparr>,
      rangeEnd = Some \<lparr>Year = 2020, Month = 1, Day = 31\<rparr>\<rparr>"
    by (simp add: transactions_opts_def WithAccountNumber_def WithRangeStart_def WithRangeEnd_def)
  have s1: "transactions_opts (opts @ [WithAccountNumber n]) =
     (transactions_opts opts)\<lparr>accountNumber := Some n\<rparr>"
    by (simp add: transactions_opts_snoc WithAccountNumber_def)
  have s2: "transactions_opts (opts @ [WithRangeStart y m dd]) =
     (transactions_opts opts)\<lparr>rangeStart := Some \<lparr>Year = y, Month = m, Day = dd\<rparr>\<rparr>"
    by (simp add: transactions_opts_snoc WithRangeStart_def)
  have s3: "transactions_opts (opts @ [WithRangeEnd y m dd]) =
     (transactions_opts opts)\<lparr>rangeEnd := Some \<lparr>Year = y, Month = m, Day = dd\<rparr>\<rparr>"
    by (simp add: transactions_opts_snoc WithRangeEnd_def)
  have t1: "reuseTokenSource_Token l (http c) w = (Inr t, src, wt) \<longrightarrow>
      requests (snd (snd (Client_Transactions l c opts w))) =
        requests wt @ [(transactions_url (transactions_opts opts),
                        Some (TokenType t @ '' '' @ AccessToken t))]"
    using Client_Transactions_token_ok [of l c w t src wt opts] by blast
  have t2: "reuseTokenSource_Token l (http c) w = (Inl err, src, wt) \<longrightarrow>
      Client_Transactions l c opts w =
        (Inl (Errorf ''failed to list transactions''
               (Some (UrlError ''Get'' (transactions_url (transactions_opts opts)) err))),
         c\<lparr>http := src\<rparr>, wt)"
    using Client_Transactions_token_err [of l c w err src wt opts] by blast
  have t3: "Valid (rts_t (http c)) (now w) \<longrightarrow>
      requests (snd (snd (Client_Transactions l c opts w))) =
        requests w @ [(transactions_url (transactions_opts opts),
                       Some (TokenType (the (rts_t (http c))) @ '' '' @
                             AccessToken (the (rts_t (http c)))))]"
    using Client_Transactions_request [of c w l opts] by blast
  note q = transactions_query_lookup [of o']
  show ?thesis
    apply (intro conjI)
    apply (rule transactions_url_params)
    apply (rule transactions_query_Encode)
    apply (rule q [THEN conjunct1])
    apply (rule q [THEN conjunct2, THEN conjunct1])
    apply (rule q [THEN conjunct2, THEN conjunct2, THEN conjunct1])
    apply (rule q [THEN conjunct2, THEN conjunct2, THEN conjunct2, THEN conjunct1])
    apply (rule q [THEN conjunct2, THEN conjunct2, THEN conjunct2, THEN conjunct2])
    apply (rule transactions_opts_Nil)
    apply (rule s1)
    apply (rule s2)
    apply (rule s3)
    apply (rule transactions_opts_filter_options)
    apply (rule t1)
    apply (rule t2)
    apply (rule t3)
    apply (rule o)
    apply (rule example_url)
    done
qed

text \<open>
  C8: a client whose token is valid sends the request of the example; a client whose
  token is stale refreshes it and then sends the request, here without any filter, so
  without any parameter; and when the refresh fails the operation fails and only the
  request of the handshake was sent.
\<close>

theorem transactions_query_parameters_witness:
  "Valid (rts_t (http (demo_client (t_2020 + 3600 * second)))) (now (demo_world [Inr body_status_500])) \<and>
   requests (snd (snd (Client_Transactions demo_lib (demo_client (t_2020 + 3600 * second))
       [WithAccountNumber 42, WithRangeStart 2020 1 1, WithRangeEnd 2020 1 31]
       (demo_world [Inr body_status_500])))) =
     [(''https://www.aplos.com/hermes/api/v1/transactions?f_accountnumber=42&f_rangeend=2020-01-31&f_rangestart=2020-01-01'',
       Some ''Bearer token-0'')] \<and>
   requests (snd (snd (Client_Transactions demo_lib (demo_client t_2019)
       (filter_options None None None) (demo_world [Inr body_ok, Inr body_status_500])))) =
     [(''https://www.aplos.com/hermes/api/v1/auth/my-client'', None),
      (''https://www.aplos.com/hermes/api/v1/transactions?'', Some ''Bearer token-1'')] \<and>
   Client_Transactions demo_lib (demo_client t_2019)
       (filter_options (Some 7) None (Some \<lparr>Year = 2020, Month = 1, Day = 31\<rparr>))
       (demo_world [Inl (LibError ''connection refused'')]) =
     (Inl (Errorf ''failed to list transactions''
            (Some (UrlError ''Get''
              ''https://www.aplos.com/hermes/api/v1/transactions?f_accountnumber=7&f_rangeend=2020-01-31''
              (Errorf ''failed to query auth endpoint''
                (Some (UrlError ''Get'' ''https://www.aplos.com/hermes/api/v1/auth/my-client''
                        (LibError ''connection refused''))))))),
      demo_client t_2019,
      \<lparr>now = t_2020, responses = [],
       requests = [(''https://www.aplos.com/hermes/api/v1/auth/my-client'', None)]\<rparr>)"
proof -
  let ?c = "demo_client (t_2020 + 3600 * second)" and ?w = "demo_world [Inr body_status_500]"
  let ?ex = "[WithAccountNumber 42, WithRangeStart 2020 1 1, WithRangeEnd 2020 1 31]"
  let ?tok = "\<lparr>AccessToken = ''token-1'', TokenType = ''Bearer'', Expiry = t_2020 + 12 * 3600 * second\<rparr>"
  let ?wa = "\<lparr>now = t_2020, responses = [],
       requests = [(''https://www.aplos.com/hermes/api/v1/auth/my-client'', None)]\<rparr>"
  have v: "Valid (rts_t (http ?c)) (now ?w)" by (rule demo_client_valid)
  have h: "TokenType (the (rts_t (http ?c))) @ '' '' @ AccessToken (the (rts_t (http ?c)))
      = ''Bearer token-0''"
    by (simp add: demo_client_def demo_token_def)
  have r: "requests ?w = []" by (simp add: demo_world_def)
  from transactions_query_parameters [where c = ?c and w = ?w and l = demo_lib and opts = ?ex] v
  have "requests (snd (snd (Client_Transactions demo_lib ?c ?ex ?w))) =
     requests ?w @
     [(''https://www.aplos.com/hermes/api/v1/transactions?f_accountnumber=42&f_rangeend=2020-01-31&f_rangestart=2020-01-01'',
       Some (TokenType (the (rts_t (http ?c))) @ '' '' @ AccessToken (the (rts_t (http ?c)))))]"
    by metis
  then have c1: "requests (snd (snd (Client_Transactions demo_lib ?c ?ex ?w))) =
     [(''https://www.aplos.com/hermes/api/v1/transactions?f_accountnumber=42&f_rangeend=2020-01-31&f_rangestart=2020-01-01'',
       Some ''Bearer token-0'')]"
    unfolding h r by simp
  note a = transactions_query_parameters [where c = "demo_client t_2019" and l = demo_lib
      and w = "demo_world [Inr body_ok, Inr body_status_500]" and t = ?tok
      and src = "\<lparr>rts_t = Some ?tok, rts_new = demo_ts\<rparr>"
      and wt = "\<lparr>now = t_2020, responses = [Inr body_status_500],
       requests = [(''https://www.aplos.com/hermes/api/v1/auth/my-client'', None)]\<rparr>"
      and opts = "filter_options None None None"
      and a = None and s = None and e = None
      and o' = "\<lparr>accountNumber = None, rangeStart = None, rangeEnd = None\<rparr>"]
  have u2: "transactions_url (transactions_opts (filter_options None None None))
      = ''https://www.aplos.com/hermes/api/v1/transactions?''"
    using a by (simp add: query_param_def)
  from a demo_refresh [of "[Inr body_status_500]"]
  have "requests (snd (snd (Client_Transactions demo_lib (demo_client t_2019)
       (filter_options None None None) (demo_world [Inr body_ok, Inr body_status_500])))) =
     requests \<lparr>now = t_2020, responses = [Inr body_status_500],
       requests = [(''https://www.aplos.com/hermes/api/v1/auth/my-client'', None)]\<rparr> @
     [(transactions_url (transactions_opts (filter_options None None None)),
       Some (TokenType ?tok @ '' '' @ AccessToken ?tok))]"
    by blast
  then have c2: "requests (snd (snd (Client_Transactions demo_lib (demo_client t_2019)
       (filter_options None None None) (demo_world [Inr body_ok, Inr body_status_500])))) =
     [(''https://www.aplos.com/hermes/api/v1/auth/my-client'', None),
      (''https://www.aplos.com/hermes/api/v1/transactions?'', Some ''Bearer token-1'')]"
    unfolding u2 by simp
  note b = transactions_query_parameters [where c = "demo_client t_2019" and l = demo_lib
      and w = "demo_world [Inl (LibError ''connection refused'')]"
      and err = "Errorf ''failed to query auth endpoint''
                (Some (UrlError ''Get'' ''https://www.aplos.com/hermes/api/v1/auth/my-client''
                        (LibError ''connection refused'')))"
      and src = "http (demo_client t_2019)" and wt = ?wa
      and opts = "filter_options (Some 7) None (Some \<lparr>Year = 2020, Month = 1, Day = 31\<rparr>)"
      and a = "Some 7" and s = None and e = "Some \<lparr>Year = 2020, Month = 1, Day = 31\<rparr>"
      and o' = "\<lparr>accountNumber = Some 7, rangeStart = None,
                 rangeEnd = Some \<lparr>Year = 2020, Month = 1, Day = 31\<rparr>\<rparr>"]
  have u3: "transactions_url (transactions_opts
        (filter_options (Some 7) None (Some \<lparr>Year = 2020, Month = 1, Day = 31\<rparr>)))
      = ''https://www.aplos.com/hermes/api/v1/transactions?f_accountnumber=7&f_rangeend=2020-01-31''"
    using b by (simp add: query_param_def strconv_Itoa_def eval_simps)
  have k: "(demo_client t_2019)\<lparr>http := http (demo_client t_2019)\<rparr> = demo_client t_2019"
    by (simp add: demo_client_def)
  from b demo_refresh_refused
  have "Client_Transactions demo_lib (demo_client t_2019)
       (filter_options (Some 7) None (Some \<lparr>Year = 2020, Month = 1, Day = 31\<rparr>))
       (demo_world [Inl (LibError ''connection refused'')]) =
     (Inl (Errorf ''failed to list transactions''
            (Some (UrlError ''Get''
              (transactions_url (transactions_opts
                 (filter_options (Some 7) None (Some \<lparr>Year = 2020, Month = 1, Day = 31\<rparr>))))
              (Errorf ''failed to query auth endpoint''
                (Some (UrlError ''Get'' ''https://www.aplos.com/hermes/api/v1/auth/my-client''
                        (LibError ''connection refused''))))))),
      (demo_client t_2019)\<lparr>http := http (demo_client t_2019)\<rparr>, ?wa)"
    by blast
  then have c3: "Client_Transactions demo_lib (demo_client t_2019)
       (filter_options (Some 7) None (Some \<lparr>Year = 2020, Month = 1, Day = 31\<rparr>))
       (demo_world [Inl (LibError ''connection refused'')]) =
     (Inl (Errorf ''failed to list transactions''
            (Some (UrlError ''Get''
              ''https://www.aplos.com/hermes/api/v1/transactions?f_accountnumber=7&f_rangeend=2020-01-31''
              (Errorf ''failed to query auth endpoint''
                (Some (UrlError ''Get'' ''https://www.aplos.com/hermes/api/v1/auth/my-client''
                        (LibError ''connection refused''))))))),
      demo_client t_2019, ?wa)"
    unfolding u3 k by simp
  from v c1 c2 c3 show ?thesis by blast
qed

text \<open>
  C10. For each of the three operations: when the request gives a body and the body
  decodes to an envelope, the operation returns the payload of \<open>data\<close> as a success,
  whatever the envelope's \<open>version\<close> and \<open>status\<close> are.
\<close>

theorem status_never_inspected:
  "(ctxhttp_Get l c (''https://www.aplos.com/hermes/api/v1/transactions/'' @ strconv_Itoa id') w
       = (Inr body, c', w') \<and>
    json_Decode_getTransactionResponse l body = Inr \<lparr>Version = v, Status = st, Data = datG\<rparr> \<longrightarrow>
      Client_Transaction l c id' w = (Inr (Data_Transaction datG), c', w')) \<and>
   (ctxhttp_Get l c (''https://www.aplos.com/hermes/api/v1/accounts?'' @
        url_Values_Encode (accounts_query (foldl (\<lambda>o' opt. opt o') \<lparr>accountName = None\<rparr> aopts))) w
       = (Inr body, c', w') \<and>
    json_Decode_listAccountsResponse l body = Inr \<lparr>Version = v, Status = st, Data = datA\<rparr> \<longrightarrow>
      Client_Accounts l c aopts w = (Inr (Data_Accounts datA), c', w')) \<and>
   (ctxhttp_Get l c (transactions_url (transactions_opts topts)) w = (Inr body, c', w') \<and>
    json_Decode_listTransactionsResponse l body = Inr \<lparr>Version = v, Status = st, Data = datL\<rparr> \<longrightarrow>
      Client_Transactions l c topts w = (Inr (Data_Transactions datL), c', w'))"
  using Client_Transaction_data [of l c id' w body c' w' v st datG]
    Client_Accounts_data [of l c aopts w body c' w' v st datA]
    Client_Transactions_data [of l c topts w body c' w' v st datL]
  by blast

text \<open>
  C10: a response of status 500 without data gives a zero-valued transaction and empty
  lists, not an error.
\<close>

theorem status_never_inspected_witness:
  "Client_Transaction demo_lib (demo_client (t_2020 + 3600 * second)) 7
       (demo_world [Inr body_status_500]) =
     (Inr zero_Transaction, demo_client (t_2020 + 3600 * second),
      \<lparr>now = t_2020, responses = [],
       requests = [(''https://www.aplos.com/hermes/api/v1/transactions/7'', Some ''Bearer token-0'')]\<rparr>) \<and>
   Client_Accounts demo_lib (demo_client (t_2020 + 3600 * second)) [WithAccountName ''Salaries'']
       (demo_world [Inr body_status_500]) =
     (Inr [], demo_client (t_2020 + 3600 * second),
      \<lparr>now = t_2020, responses = [],
       requests = [(''https://www.aplos.com/hermes/api/v1/accounts?f_name=Salaries'', Some ''Bearer token-0'')]\<rparr>) \<and>
   Client_Transactions demo_lib (demo_client (t_2020 + 3600 * second)) [WithAccountNumber 42]
       (demo_world [Inr body_status_500]) =
     (Inr [], demo_client (t_2020 + 3600 * second),
      \<lparr>now = t_2020, responses = [],
       requests = [(''https://www.aplos.com/hermes/api/v1/transactions?f_accountnumber=42'', Some ''Bearer token-0'')]\<rparr>)"
proof -
  let ?c = "demo_client (t_2020 + 3600 * second)" and ?w = "demo_world [Inr body_status_500]"
  have u1: "''https://www.aplos.com/hermes/api/v1/transactions/'' @ strconv_Itoa 7
      = ''https://www.aplos.com/hermes/api/v1/transactions/7''"
    by (simp add: strconv_Itoa_def itoa_nat.simps digit_char_simps)
  have u2: "''https://www.aplos.com/hermes/api/v1/accounts?'' @
        url_Values_Encode (accounts_query (foldl (\<lambda>o' opt. opt o') \<lparr>accountName = None\<rparr>
          [WithAccountName ''Salaries'']))
      = ''https://www.aplos.com/hermes/api/v1/accounts?f_name=Salaries''"
    by (simp add: WithAccountName_def accounts_query_def url_Values_Encode_def write_pair_def
        QueryEscape_def escape_char_def shouldEscape_def isAlnum_def)
  have u3: "transactions_url (transactions_opts [WithAccountNumber 42])
      = ''https://www.aplos.com/hermes/api/v1/transactions?f_accountnumber=42''"
    by (simp add: transactions_url_def transactions_opts_def WithAccountNumber_def
        transactions_query_def url_Values_Encode_def write_pair_def QueryEscape_def escape_char_def
        shouldEscape_def isAlnum_def strconv_Itoa_def itoa_nat.simps digit_char_simps)
  have j1: "json_Decode_getTransactionResponse demo_lib body_status_500 =
      Inr \<lparr>Version = ''v1'', Status = 500, Data = \<lparr>Data_Transaction = zero_Transaction\<rparr>\<rparr>"
    by (simp add: demo_lib_def)
  have j2: "json_Decode_listAccountsResponse demo_lib body_status_500 =
      Inr \<lparr>Version = ''v1'', Status = 500, Data = \<lparr>Data_Accounts = []\<rparr>\<rparr>"
    by (simp add: demo_lib_def)
  have j3: "json_Decode_listTransactionsResponse demo_lib body_status_500 =
      Inr \<lparr>Version = ''v1'', Status = 500, Data = \<lparr>Data_Transactions = []\<rparr>\<rparr>"
    by (simp add: demo_lib_def)
  have g1: "ctxhttp_Get demo_lib ?c (''https://www.aplos.com/hermes/api/v1/transactions/'' @ strconv_Itoa 7) ?w =
     (Inr body_status_500, ?c, \<lparr>now = t_2020, responses = [],
       requests = [(''https://www.aplos.com/hermes/api/v1/transactions/7'', Some ''Bearer token-0'')]\<rparr>)"
    unfolding u1 by (rule demo_ctxhttp_Get)
  have g2: "ctxhttp_Get demo_lib ?c (''https://www.aplos.com/hermes/api/v1/accounts?'' @
        url_Values_Encode (accounts_query (foldl (\<lambda>o' opt. opt o') \<lparr>accountName = None\<rparr>
          [WithAccountName ''Salaries'']))) ?w =
     (Inr body_status_500, ?c, \<lparr>now = t_2020, responses = [],
       requests = [(''https://www.aplos.com/hermes/api/v1/accounts?f_name=Salaries'', Some ''Bearer token-0'')]\<rparr>)"
    unfolding u2 by (rule demo_ctxhttp_Get)
  have g3: "ctxhttp_Get demo_lib ?c (transactions_url (transactions_opts [WithAccountNumber 42])) ?w =
     (Inr body_status_500, ?c, \<lparr>now = t_2020, responses = [],
       requests = [(''https://www.aplos.com/hermes/api/v1/transactions?f_accountnumber=42'', Some ''Bearer token-0'')]\<rparr>)"
    unfolding u3 by (rule demo_ctxhttp_Get)
  from status_never_inspected [where l = demo_lib and c = ?c and w = ?w and id' = 7
      and body = body_status_500 and c' = ?c and v = "''v1''" and st = 500
      and datG = "\<lparr>Data_Transaction = zero_Transaction\<rparr>"] g1 j1
  have c1: "Client_Transaction demo_lib ?c 7 ?w =
     (Inr (Data_Transaction \<lparr>Data_Transaction = zero_Transaction\<rparr>), ?c,
      \<lparr>now = t_2020, responses = [],
       requests = [(''https://www.aplos.com/hermes/api/v1/transactions/7'', Some ''Bearer token-0'')]\<rparr>)"
    by blast
  from status_never_inspected [where l = demo_lib and c = ?c and w = ?w
      and aopts = "[WithAccountName ''Salaries'']"
      and body = body_status_500 and c' = ?c and v = "''v1''" and st = 500
      and datA = "\<lparr>Data_Accounts = []\<rparr>"] g2 j2
  have c2: "Client_Accounts demo_lib ?c [WithAccountName ''Salaries''] ?w =
     (Inr (Data_Accounts \<lparr>Data_Accounts = []\<rparr>), ?c,
      \<lparr>now = t_2020, responses = [],
       requests = [(''https://www.aplos.com/hermes/api/v1/accounts?f_name=Salaries'', Some ''Bearer token-0'')]\<rparr>)"
    by blast
  from status_never_inspected [where l = demo_lib and c = ?c and w = ?w
      and topts = "[WithAccountNumber 42]"
      and body = body_status_500 and c' = ?c and v = "''v1''" and st = 500
      and datL = "\<lparr>Data_Transactions = []\<rparr>"] g3 j3
  have c3: "Client_Transactions demo_lib ?c [WithAccountNumber 42] ?w =
     (Inr (Data_Transactions \<lparr>Data_Transactions = []\<rparr>), ?c,
      \<lparr>now = t_2020, responses = [],
       requests = [(''https://www.aplos.com/hermes/api/v1/transactions?f_accountnumber=42'', Some ''Bearer token-0'')]\<rparr>)"
    by blast
  from c1 c2 c3 show ?thesis by simp
qed

end
